theory Spec2Isabelle
  imports
    Complex_Main
    "HOL-Library.Multiset"
    "HOL-Library.Char_ord"
    "HOL-Library.List_Lexorder"
begin

section \<open>The BraTS data module: file discovery, validation and split\<close>

text \<open>
  The development embeds \<^verbatim>\<open>src/data_module.py\<close>: the class
  \<^verbatim>\<open>BraTSDataModule\<close> with its constructor, \<^verbatim>\<open>setup\<close>,
  \<^verbatim>\<open>train_dataloader\<close> and \<^verbatim>\<open>val_dataloader\<close>.

  The class does all of its work through calls into the Python standard library
  (\<^verbatim>\<open>os.path\<close>, \<^verbatim>\<open>glob\<close>, \<^verbatim>\<open>sorted\<close>) and into
  scikit-learn, MONAI and PyTorch. Those calls are the semantics of the program text, so
  each one is given a definition of its own below, named after the library function and
  written after the library's behaviour on the arguments this program passes. What a
  library reads from the outside world (directory listings, file tests, the pseudo-random
  permutation drawn for seed 42) is a parameter. Paths follow the POSIX flavour of
  \<^verbatim>\<open>os.path\<close>, the one the specification's file layout is written in. Python
  strings are modelled as byte strings in UTF-8, for which the byte-wise lexicographic
  order of \<^typ>\<open>string\<close> is the code-point order that \<^verbatim>\<open>sorted\<close> uses.
\<close>

subsection \<open>Path functions of the standard library\<close>

text \<open>
  \<^verbatim>\<open>posixpath.join(a, b)\<close>: an absolute \<open>b\<close> or an empty \<open>a\<close> gives \<open>b\<close>;
  a separator is inserted unless \<open>a\<close> already ends in one.
\<close>

definition posix_join :: "string \<Rightarrow> string \<Rightarrow> string" where
  "posix_join a b =
     (if (b \<noteq> [] \<and> hd b = CHR ''/'') \<or> a = [] then b
      else if last a = CHR ''/'' then a @ b
      else a @ CHR ''/'' # b)"

definition rstrip_sep :: "string \<Rightarrow> string" where
  "rstrip_sep s = rev (dropWhile (\<lambda>c. c = CHR ''/'') (rev s))"

text \<open>
  \<^verbatim>\<open>posixpath.split(p)\<close>: the text up to and including the last separator, and the
  text after it; trailing separators are stripped from the first part unless it consists
  of separators only.
\<close>

definition posix_split :: "string \<Rightarrow> string \<times> string" where
  "posix_split p =
     (let head = rev (dropWhile (\<lambda>c. c \<noteq> CHR ''/'') (rev p));
          tail = rev (takeWhile (\<lambda>c. c \<noteq> CHR ''/'') (rev p))
      in (if head \<noteq> [] \<and> head \<noteq> replicate (length head) (CHR ''/'')
          then rstrip_sep head else head,
          tail))"

text \<open>\<^verbatim>\<open>posixpath.basename(p)\<close>: the text after the last separator.\<close>

definition posix_basename :: "string \<Rightarrow> string" where
  "posix_basename p = rev (takeWhile (\<lambda>c. c \<noteq> CHR ''/'') (rev p))"

subsection \<open>The file system and \<^verbatim>\<open>glob.glob\<close>\<close>

text \<open>
  The file system is what the library calls observe of it:
  \<^item> \<open>fs_scandir\<close>: the entry names \<^verbatim>\<open>os.scandir\<close> yields for a directory path, in
    the arbitrary order of the operating system; empty when the call fails (\<^verbatim>\<open>glob\<close>
    swallows the \<^verbatim>\<open>OSError\<close>);
  \<^item> \<open>fs_isdir\<close> and \<open>fs_exists\<close>: \<^verbatim>\<open>os.path.isdir\<close> and
    \<^verbatim>\<open>os.path.exists\<close>, which never raise;
  \<^item> \<open>fs_iglob_dirs\<close>: the directories that \<^verbatim>\<open>glob\<close>'s recursive call finds for a
    directory part that itself contains wildcard characters; that expansion is not
    modelled further.
\<close>

record filesystem =
  fs_scandir :: "string \<Rightarrow> string list"
  fs_isdir :: "string \<Rightarrow> bool"
  fs_exists :: "string \<Rightarrow> bool"
  fs_iglob_dirs :: "string \<Rightarrow> string list"

text \<open>\<^verbatim>\<open>glob.has_magic\<close>: the text contains one of \<^verbatim>\<open>* ? [\<close>.\<close>

definition has_magic :: "string \<Rightarrow> bool" where
  "has_magic s = list_ex (\<lambda>c. c = CHR ''*'' \<or> c = CHR ''?'' \<or> c = CHR ''['') s"

text \<open>
  \<^verbatim>\<open>glob._ishidden\<close>: the name starts with a dot. Entry names are never empty; the
  model answers \<open>False\<close> for the empty name, which the library is never asked about.
\<close>

definition ishidden :: "string \<Rightarrow> bool" where
  "ishidden name = (case name of [] \<Rightarrow> False | c # _ \<Rightarrow> c = CHR ''.'')"

text \<open>
  \<^verbatim>\<open>glob._glob1(dirname, "*")\<close>: the entries of \<open>dirname\<close> (of the current directory
  when \<open>dirname\<close> is empty) that are not hidden; the pattern \<^verbatim>\<open>*\<close> matches every
  remaining name.
\<close>

definition glob1 :: "filesystem \<Rightarrow> string \<Rightarrow> string list" where
  "glob1 fs dirname =
     filter (\<lambda>x. \<not> ishidden x) (fs_scandir fs (if dirname = [] then ''.'' else dirname))"

text \<open>
  \<^verbatim>\<open>glob.glob(pathname)\<close> for a pattern whose last component is the single wildcard
  \<^verbatim>\<open>*\<close>, the only kind \<^verbatim>\<open>setup\<close> builds. The pattern is split with
  \<^verbatim>\<open>os.path.split\<close>; with an empty directory part the bare names are returned,
  otherwise each name joined to the directory part as \<^verbatim>\<open>split\<close> returned it.
\<close>

definition glob_glob :: "filesystem \<Rightarrow> string \<Rightarrow> string list" where
  "glob_glob fs pathname =
     (let dirname = fst (posix_split pathname) in
      if dirname = [] then glob1 fs dirname
      else concat (map (\<lambda>d. map (posix_join d) (glob1 fs d))
                       (if has_magic dirname then fs_iglob_dirs fs dirname else [dirname])))"

subsection \<open>\<^verbatim>\<open>sklearn.model_selection.train_test_split\<close>\<close>

datatype error = FileNotFoundError | ValueError | IndexError

text \<open>List indexing by a list of indices; Python raises \<^verbatim>\<open>IndexError\<close> out of range.\<close>

fun safe_indexing :: "'a list \<Rightarrow> nat list \<Rightarrow> 'a list option" where
  "safe_indexing xs [] = Some []"
| "safe_indexing xs (i # is) =
     (if i < length xs
      then (case safe_indexing xs is of None \<Rightarrow> None | Some ys \<Rightarrow> Some (xs ! i # ys))
      else None)"

text \<open>
  \<^verbatim>\<open>train_test_split(arrays, test_size=0.2, random_state=42)\<close>. The library computes
  \<^verbatim>\<open>n_test = ceil(0.2 * n_samples)\<close> and \<^verbatim>\<open>n_train = n_samples - n_test\<close>, and
  raises \<^verbatim>\<open>ValueError\<close> when \<open>n_train\<close> is zero. In double precision
  \<^verbatim>\<open>ceil(0.2 * n)\<close> is \<open>\<lceil>n / 5\<rceil>\<close> for every list length a machine can hold, written
  here as \<open>(n + 4) div 5\<close>. It then draws \<^verbatim>\<open>RandomState(42).permutation(n_samples)\<close>,
  the parameter \<open>perm\<close>; the first \<open>n_test\<close> indices select the test part and the next
  \<open>n_train\<close> the train part. The result is the pair (train, test).
\<close>

definition train_test_split ::
  "(nat \<Rightarrow> nat list) \<Rightarrow> 'a list \<Rightarrow> error + ('a list \<times> 'a list)" where
  "train_test_split perm arrays =
     (let n_samples = length arrays;
          n_test = (n_samples + 4) div 5;
          n_train = n_samples - n_test
      in if n_train = 0 then Inl ValueError
         else
           let permutation = perm n_samples;
               ind_test = take n_test permutation;
               ind_train = take n_train (drop n_test permutation)
           in (case safe_indexing arrays ind_train of
                 None \<Rightarrow> Inl IndexError
               | Some train \<Rightarrow>
                   (case safe_indexing arrays ind_test of
                      None \<Rightarrow> Inl IndexError
                    | Some test \<Rightarrow> Inr (train, test))))"

subsection \<open>The data module\<close>

text \<open>
  One entry of \<^verbatim>\<open>data_list\<close>: the dictionary with the keys \<^verbatim>\<open>image\<close> and
  \<^verbatim>\<open>label\<close>. The key \<^verbatim>\<open>image\<close> is the field \<open>images\<close>, since the name
  \<open>image\<close> is taken in HOL.
\<close>

record patient_record =
  images :: "string list"
  label :: string

record data_module =
  data_dir :: string
  batch_size :: int
  num_workers :: int
  cache_rate :: real
  train_files :: "patient_record list"
  val_files :: "patient_record list"

text \<open>The constructor, and the constructor with its default arguments.\<close>

definition init_dm :: "string \<Rightarrow> int \<Rightarrow> int \<Rightarrow> real \<Rightarrow> data_module" where
  "init_dm dir bs nw cr =
     \<lparr>data_dir = dir, batch_size = bs, num_workers = nw, cache_rate = cr,
      train_files = [], val_files = []\<rparr>"

definition init_default :: "string \<Rightarrow> data_module" where
  "init_default dir = init_dm dir 1 4 1"

text \<open>The five file names of a patient directory, as the loop body builds them.\<close>

definition modality_path :: "string \<Rightarrow> string \<Rightarrow> string" where
  "modality_path pat_path suffix = posix_join pat_path (posix_basename pat_path @ suffix)"

definition t1_path :: "string \<Rightarrow> string" where
  "t1_path pat_path = modality_path pat_path ''-t1n.nii.gz''"

definition t1ce_path :: "string \<Rightarrow> string" where
  "t1ce_path pat_path = modality_path pat_path ''-t1c.nii.gz''"

definition t2_path :: "string \<Rightarrow> string" where
  "t2_path pat_path = modality_path pat_path ''-t2w.nii.gz''"

definition flair_path :: "string \<Rightarrow> string" where
  "flair_path pat_path = modality_path pat_path ''-t2f.nii.gz''"

definition seg_path :: "string \<Rightarrow> string" where
  "seg_path pat_path = modality_path pat_path ''-seg.nii.gz''"

definition make_record :: "string \<Rightarrow> patient_record" where
  "make_record pat_path =
     \<lparr>images = [t1_path pat_path, t1ce_path pat_path, t2_path pat_path, flair_path pat_path],
      label = seg_path pat_path\<rparr>"

text \<open>The loop over \<^verbatim>\<open>patient_dirs\<close>, appending to \<^verbatim>\<open>data_list\<close> in order.\<close>

fun build_data_list :: "filesystem \<Rightarrow> string list \<Rightarrow> patient_record list" where
  "build_data_list fs [] = []"
| "build_data_list fs (pat_path # rest) =
     (if fs_exists fs (t1_path pat_path) \<and> fs_exists fs (seg_path pat_path)
      then make_record pat_path # build_data_list fs rest
      else build_data_list fs rest)"

text \<open>The first lines of \<^verbatim>\<open>setup\<close>: glob, sort, keep the directories.\<close>

definition patient_dirs :: "filesystem \<Rightarrow> string \<Rightarrow> string list" where
  "patient_dirs fs dir =
     filter (fs_isdir fs) (sort (glob_glob fs (posix_join dir ''*'')))"

text \<open>The two progress lines \<^verbatim>\<open>setup\<close> prints, by the numbers they carry.\<close>

datatype message = Found nat | Split_sizes nat nat

text \<open>
  The outcome of a call of \<^verbatim>\<open>setup\<close>: the exception that left it, if any, the
  object afterwards, and what was printed.
\<close>

record setup_result =
  raised :: "error option"
  self :: data_module
  printed :: "message list"

definition setup_dm :: "filesystem \<Rightarrow> (nat \<Rightarrow> nat list) \<Rightarrow> data_module \<Rightarrow> setup_result" where
  "setup_dm fs perm m =
     (let dirs = patient_dirs fs (data_dir m) in
      if length dirs = 0
      then \<lparr>raised = Some FileNotFoundError, self = m, printed = []\<rparr>
      else
        let data_list = build_data_list fs dirs;
            out = [Found (length data_list)]
        in (case train_test_split perm data_list of
              Inl e \<Rightarrow> \<lparr>raised = Some e, self = m, printed = out\<rparr>
            | Inr (train_list, val_list) \<Rightarrow>
                \<lparr>raised = None,
                 self = m\<lparr>train_files := train_list, val_files := val_list\<rparr>,
                 printed = out @ [Split_sizes (length train_list) (length val_list)]\<rparr>))"

subsection \<open>The loaders\<close>

text \<open>
  Modelled from the spec: \<^verbatim>\<open>src/transforms.py\<close> with \<^verbatim>\<open>get_train_transforms\<close>
  and \<^verbatim>\<open>get_val_transforms\<close> is not among the sources. The specification calls it
  an external transform pipeline that turns file paths into tensors and gives it no
  behaviour of its own, so a pipeline is the name of the call that made it.
\<close>

datatype transforms = Train_transforms "nat \<times> nat \<times> nat" | Val_transforms

definition get_train_transforms :: "nat \<times> nat \<times> nat \<Rightarrow> transforms" where
  "get_train_transforms roi_size = Train_transforms roi_size"

definition get_val_transforms :: transforms where
  "get_val_transforms = Val_transforms"

text \<open>
  \<^verbatim>\<open>monai.data.CacheDataset(data, transform, cache_rate, num_workers)\<close>: the
  constructor keeps its arguments, the worker count raised to at least one. It also fills
  its cache, which applies the transforms to the files of \<open>data\<close> and fails where a file
  cannot be read; the cached items play no part below, and the model describes the
  constructions whose cache fill succeeds, among them every construction over the empty
  list, which caches nothing.
\<close>

record cache_dataset =
  ds_data :: "patient_record list"
  ds_transform :: transforms
  ds_cache_rate :: real
  ds_num_workers :: int

definition CacheDataset ::
  "patient_record list \<Rightarrow> transforms \<Rightarrow> real \<Rightarrow> int \<Rightarrow> cache_dataset" where
  "CacheDataset d t cr nw =
     \<lparr>ds_data = d, ds_transform = t, ds_cache_rate = cr, ds_num_workers = max nw 1\<rparr>"

record dataloader =
  dl_dataset :: cache_dataset
  dl_batch_size :: int
  dl_shuffle :: bool
  dl_num_workers :: int
  dl_pin_memory :: bool

text \<open>
  \<^verbatim>\<open>monai.data.DataLoader\<close>, a \<^verbatim>\<open>torch.utils.data.DataLoader\<close>. Its constructor
  checks its arguments and raises \<^verbatim>\<open>ValueError\<close> for a negative worker count, for
  \<^verbatim>\<open>shuffle=True\<close> over a dataset of length zero (the random sampler wants a
  positive number of samples) and for a batch size that is not positive.
\<close>

definition DataLoader ::
  "cache_dataset \<Rightarrow> int \<Rightarrow> bool \<Rightarrow> int \<Rightarrow> bool \<Rightarrow> error + dataloader" where
  "DataLoader ds bs shuffle nw pin =
     (if nw < 0 then Inl ValueError
      else if shuffle \<and> length (ds_data ds) = 0 then Inl ValueError
      else if bs \<le> 0 then Inl ValueError
      else Inr \<lparr>dl_dataset = ds, dl_batch_size = bs, dl_shuffle = shuffle,
                dl_num_workers = nw, dl_pin_memory = pin\<rparr>)"

definition train_dataloader :: "data_module \<Rightarrow> error + dataloader" where
  "train_dataloader m =
     (let train_transforms = get_train_transforms (64, 64, 64);
          train_ds = CacheDataset (train_files m) train_transforms (cache_rate m) (num_workers m)
      in DataLoader train_ds (batch_size m) True (num_workers m) True)"

definition val_dataloader :: "data_module \<Rightarrow> error + dataloader" where
  "val_dataloader m =
     (let val_transforms = get_val_transforms;
          val_ds = CacheDataset (val_files m) val_transforms (cache_rate m) (num_workers m)
      in DataLoader val_ds 1 False (num_workers m) False)"

subsection \<open>What the specification says about the split sizes\<close>

text \<open>
  The specification's \<^verbatim>\<open>round(0.8N)\<close>. The product \<open>0.8N\<close> is never halfway between
  two integers, so every rounding rule gives \<open>\<lfloor>0.8N + 1/2\<rfloor>\<close>, which is
  \<open>(8N + 5) div 10\<close>.
\<close>

definition spec_round_train :: "nat \<Rightarrow> nat" where
  "spec_round_train N = (8 * N + 5) div 10"

subsection \<open>Example file systems\<close>

text \<open>
  A file system given by the listing of each directory, its directories and its files.
  No directory path with wildcards is expanded in the examples.
\<close>

definition mk_fs ::
  "(string \<times> string list) list \<Rightarrow> string list \<Rightarrow> string list \<Rightarrow> filesystem" where
  "mk_fs listing dirs files =
     \<lparr>fs_scandir = (\<lambda>d. case map_of listing d of None \<Rightarrow> [] | Some ns \<Rightarrow> ns),
      fs_isdir = (\<lambda>p. List.member dirs p),
      fs_exists = (\<lambda>p. List.member dirs p \<or> List.member files p),
      fs_iglob_dirs = (\<lambda>d. [])\<rparr>"

text \<open>
  The scenario of the specification: two patient folders, of which \<^verbatim>\<open>BraTS-GLI-00002\<close>
  lacks its label file. The operating system lists them in no particular order.
\<close>

definition fs_one :: filesystem where
  "fs_one =
     mk_fs [(''data'', [''BraTS-GLI-00002'', ''BraTS-GLI-00001''])]
       [''data'', ''data/BraTS-GLI-00001'', ''data/BraTS-GLI-00002'']
       [''data/BraTS-GLI-00001/BraTS-GLI-00001-t1n.nii.gz'',
        ''data/BraTS-GLI-00001/BraTS-GLI-00001-t1c.nii.gz'',
        ''data/BraTS-GLI-00001/BraTS-GLI-00001-t2w.nii.gz'',
        ''data/BraTS-GLI-00001/BraTS-GLI-00001-t2f.nii.gz'',
        ''data/BraTS-GLI-00001/BraTS-GLI-00001-seg.nii.gz'',
        ''data/BraTS-GLI-00002/BraTS-GLI-00002-t1n.nii.gz'',
        ''data/BraTS-GLI-00002/BraTS-GLI-00002-t1c.nii.gz'',
        ''data/BraTS-GLI-00002/BraTS-GLI-00002-t2w.nii.gz'',
        ''data/BraTS-GLI-00002/BraTS-GLI-00002-t2f.nii.gz'']"

text \<open>A root with one patient folder that holds no files, a stray file and a hidden folder.\<close>

definition fs_novalid :: filesystem where
  "fs_novalid =
     mk_fs [(''data'', [''notes.txt'', ''.cache'', ''P1''])]
       [''data'', ''data/.cache'', ''data/P1'']
       [''data/notes.txt'']"

text \<open>A root with a stray file and a hidden folder only.\<close>

definition fs_nodirs :: filesystem where
  "fs_nodirs =
     mk_fs [(''data'', [''notes.txt'', ''.cache''])]
       [''data'', ''data/.cache'']
       [''data/notes.txt'']"

text \<open>
  Patient folders \<open>P1\<close>, \<open>P2\<close>, ... with the primary volume and the label only, which
  is all the scan looks at.
\<close>

definition fs_two :: filesystem where
  "fs_two =
     mk_fs [(''data'', [''P2'', ''P1''])]
       [''data'', ''data/P1'', ''data/P2'']
       [''data/P1/P1-t1n.nii.gz'', ''data/P1/P1-seg.nii.gz'',
        ''data/P2/P2-t1n.nii.gz'', ''data/P2/P2-seg.nii.gz'']"

definition fs_three :: filesystem where
  "fs_three =
     mk_fs [(''data'', [''P2'', ''P3'', ''P1''])]
       [''data'', ''data/P1'', ''data/P2'', ''data/P3'']
       [''data/P1/P1-t1n.nii.gz'', ''data/P1/P1-seg.nii.gz'',
        ''data/P2/P2-t1n.nii.gz'', ''data/P2/P2-seg.nii.gz'',
        ''data/P3/P3-t1n.nii.gz'', ''data/P3/P3-seg.nii.gz'']"

text \<open>A permutation for the examples: the indices in descending order.\<close>

definition perm_desc :: "nat \<Rightarrow> nat list" where
  "perm_desc n = rev [0..<n]"

text \<open>A configured object whose lists a completed scan has filled.\<close>

definition dm_loaded :: data_module where
  "dm_loaded =
     (init_dm ''data'' 2 4 1)
       \<lparr>train_files := [make_record ''data/P1''], val_files := [make_record ''data/P2'']\<rparr>"

text \<open>
  The scenario again, with nothing left in the first folder but the primary volume and
  the label.
\<close>

definition fs_one_primary_only :: filesystem where
  "fs_one_primary_only =
     mk_fs [(''data'', [''BraTS-GLI-00002'', ''BraTS-GLI-00001''])]
       [''data'', ''data/BraTS-GLI-00001'', ''data/BraTS-GLI-00002'']
       [''data/BraTS-GLI-00001/BraTS-GLI-00001-t1n.nii.gz'',
        ''data/BraTS-GLI-00001/BraTS-GLI-00001-seg.nii.gz'',
        ''data/BraTS-GLI-00002/BraTS-GLI-00002-t1n.nii.gz'',
        ''data/BraTS-GLI-00002/BraTS-GLI-00002-t1c.nii.gz'',
        ''data/BraTS-GLI-00002/BraTS-GLI-00002-t2w.nii.gz'',
        ''data/BraTS-GLI-00002/BraTS-GLI-00002-t2f.nii.gz'']"

text \<open>The three patient folders, listed by the operating system in another order.\<close>

definition fs_three_relisted :: filesystem where
  "fs_three_relisted =
     fs_three\<lparr>fs_scandir := (\<lambda>d. if d = ''data'' then [''P1'', ''P2'', ''P3''] else [])\<rparr>"

text \<open>A patient folder in the current directory, for the empty root path.\<close>

definition fs_cwd :: filesystem where
  "fs_cwd = mk_fs [(''.'', [''P1''])] [''P1''] [''P1/P1-t1n.nii.gz'', ''P1/P1-seg.nii.gz'']"

subsection \<open>Notions used in the statements\<close>

text \<open>
  For a root directory \<open>root\<close>, the directory part of the search pattern as
  \<^verbatim>\<open>glob\<close> splits it off, the directory whose entries are listed when that part holds
  no wildcard, and the path under which an entry of that directory is reported.
\<close>

definition glob_dirname :: "string \<Rightarrow> string" where
  "glob_dirname rootdir = fst (posix_split (posix_join rootdir ''*''))"

definition listed_dir :: "string \<Rightarrow> string" where
  "listed_dir rootdir = (if glob_dirname rootdir = [] then ''.'' else glob_dirname rootdir)"

definition entry_path :: "string \<Rightarrow> string \<Rightarrow> string" where
  "entry_path rootdir name =
     (if glob_dirname rootdir = [] then name else posix_join (glob_dirname rootdir) name)"

text \<open>
  A root path ends in redundant separators when it ends in two separators and does not
  consist of separators only.
\<close>

definition redundant_sep :: "string \<Rightarrow> bool" where
  "redundant_sep rootdir =
     (2 \<le> length rootdir \<and> last rootdir = CHR ''/'' \<and> last (butlast rootdir) = CHR ''/'' \<and>
      list_ex (\<lambda>c. c \<noteq> CHR ''/'') rootdir)"

text \<open>
  The record of patient \<open>P\<close> under \<open>root\<close> in the specification's words: every path is
  \<^verbatim>\<open><root>/P/P<suffix>\<close> by path joining, modalities in the order T1, T1 with contrast,
  T2, FLAIR.
\<close>

definition spec_patient_file :: "string \<Rightarrow> string \<Rightarrow> string \<Rightarrow> string" where
  "spec_patient_file rootdir P suffix = posix_join (posix_join rootdir P) (P @ suffix)"

definition spec_record :: "string \<Rightarrow> string \<Rightarrow> patient_record" where
  "spec_record rootdir P =
     \<lparr>images = [spec_patient_file rootdir P ''-t1n.nii.gz'', spec_patient_file rootdir P ''-t1c.nii.gz'',
                spec_patient_file rootdir P ''-t2w.nii.gz'', spec_patient_file rootdir P ''-t2f.nii.gz''],
      label = spec_patient_file rootdir P ''-seg.nii.gz''\<rparr>"

section \<open>Properties\<close>

subsection \<open>The scan loop and the outcome of the call\<close>

lemma build_data_list_filter:
  "build_data_list fs dirs =
     map make_record
       (filter (\<lambda>p. fs_exists fs (t1_path p) \<and> fs_exists fs (seg_path p)) dirs)"
  by (induction dirs) simp_all

lemma split_short: "length xs < 2 \<Longrightarrow> train_test_split perm xs = Inl ValueError"
proof -
  assume "length xs < 2"
  then have "length xs = 0 \<or> length xs = 1" by arith
  then show ?thesis
    by (auto simp: train_test_split_def Let_def)
qed

lemma split_not_FileNotFound: "train_test_split perm xs \<noteq> Inl FileNotFoundError"
  by (simp add: train_test_split_def Let_def split: option.splits)

lemma setup_dm_no_dirs:
  "patient_dirs fs (data_dir m) = [] \<Longrightarrow>
   setup_dm fs perm m = \<lparr>raised = Some FileNotFoundError, self = m, printed = []\<rparr>"
  by (simp add: setup_dm_def)

lemma setup_dm_dirs:
  "patient_dirs fs (data_dir m) \<noteq> [] \<Longrightarrow>
   setup_dm fs perm m =
     (case train_test_split perm (build_data_list fs (patient_dirs fs (data_dir m))) of
        Inl e \<Rightarrow>
          \<lparr>raised = Some e, self = m,
           printed = [Found (length (build_data_list fs (patient_dirs fs (data_dir m))))]\<rparr>
      | Inr (train_list, val_list) \<Rightarrow>
          \<lparr>raised = None,
           self = m\<lparr>train_files := train_list, val_files := val_list\<rparr>,
           printed = [Found (length (build_data_list fs (patient_dirs fs (data_dir m)))),
                      Split_sizes (length train_list) (length val_list)]\<rparr>)"
  by (simp add: setup_dm_def Let_def split: sum.splits)

lemma data_dir_init_default: "data_dir (init_default d) = d"
  by (simp add: init_default_def init_dm_def)

subsection \<open>C1: the no-data failure\<close>

text \<open>
  Claim C1, as amended. \<^verbatim>\<open>setup\<close> raises \<^verbatim>\<open>FileNotFoundError\<close> exactly when the
  listing of the root yields no directory at all; it is then raised before anything is
  printed and the object is left as it was. When directories exist but none of them
  yields a valid record, the call fails as well and leaves the object as it was, but later
  and with another exception: the found-count line is printed with the count zero, and
  the split call raises \<^verbatim>\<open>ValueError\<close>.
\<close>

theorem setup_no_data_failure:
  "(patient_dirs fs (data_dir m) = [] \<longrightarrow>
      setup_dm fs perm m = \<lparr>raised = Some FileNotFoundError, self = m, printed = []\<rparr>) \<and>
   (patient_dirs fs (data_dir m) \<noteq> [] \<longrightarrow>
      raised (setup_dm fs perm m) \<noteq> Some FileNotFoundError) \<and>
   (patient_dirs fs (data_dir m) \<noteq> [] \<and>
    build_data_list fs (patient_dirs fs (data_dir m)) = [] \<longrightarrow>
      setup_dm fs perm m = \<lparr>raised = Some ValueError, self = m, printed = [Found 0]\<rparr>)"
proof (intro conjI impI)
  assume "patient_dirs fs (data_dir m) = []"
  then show "setup_dm fs perm m = \<lparr>raised = Some FileNotFoundError, self = m, printed = []\<rparr>"
    by (rule setup_dm_no_dirs)
next
  assume "patient_dirs fs (data_dir m) \<noteq> []"
  then show "raised (setup_dm fs perm m) \<noteq> Some FileNotFoundError"
    using split_not_FileNotFound [of perm "build_data_list fs (patient_dirs fs (data_dir m))"]
    by (auto simp: setup_dm_dirs split: sum.splits prod.splits)
next
  assume "patient_dirs fs (data_dir m) \<noteq> [] \<and>
    build_data_list fs (patient_dirs fs (data_dir m)) = []"
  then show "setup_dm fs perm m = \<lparr>raised = Some ValueError, self = m, printed = [Found 0]\<rparr>"
    by (simp add: setup_dm_dirs split_short)
qed

text \<open>
  Both cases on example roots: one whose only folder is hidden, and one with a patient
  folder that holds no files.
\<close>

theorem setup_no_data_failure_witness:
  "patient_dirs fs_nodirs ''data'' = [] \<and>
   setup_dm fs_nodirs perm_desc (init_default ''data'') =
     \<lparr>raised = Some FileNotFoundError, self = init_default ''data'', printed = []\<rparr> \<and>
   patient_dirs fs_novalid ''data'' = [''data/P1''] \<and>
   build_data_list fs_novalid (patient_dirs fs_novalid ''data'') = [] \<and>
   raised (setup_dm fs_novalid perm_desc (init_default ''data'')) \<noteq> Some FileNotFoundError \<and>
   setup_dm fs_novalid perm_desc (init_default ''data'') =
     \<lparr>raised = Some ValueError, self = init_default ''data'', printed = [Found 0]\<rparr>"
proof -
  have a: "patient_dirs fs_nodirs ''data'' = []" by code_simp
  have b: "patient_dirs fs_novalid ''data'' = [''data/P1'']" by code_simp
  have c: "build_data_list fs_novalid (patient_dirs fs_novalid ''data'') = []" by code_simp
  show ?thesis
    using a b c
      setup_no_data_failure [of fs_nodirs "init_default ''data''" perm_desc]
      setup_no_data_failure [of fs_novalid "init_default ''data''" perm_desc]
    by (simp add: data_dir_init_default)
qed

text \<open>
  The claim as written fails where a subdirectory exists and no record is valid: the
  exception is not the no-data failure.
\<close>

theorem no_valid_record_counterexample:
  "patient_dirs fs_novalid ''data'' \<noteq> [] \<and>
   build_data_list fs_novalid (patient_dirs fs_novalid ''data'') = [] \<and>
   raised (setup_dm fs_novalid perm_desc (init_default ''data'')) = Some ValueError \<and>
   raised (setup_dm fs_novalid perm_desc (init_default ''data'')) \<noteq> Some FileNotFoundError"
  by code_simp

subsection \<open>C2: a root with a single valid record\<close>

text \<open>
  Claim C2, as amended. For a root whose listing yields exactly one valid patient record,
  \<^verbatim>\<open>setup\<close> does not complete: it reports one valid patient, and the split call
  raises \<^verbatim>\<open>ValueError\<close> because one record leaves nothing for the training part
  once the validation part has taken \<open>\<lceil>0.2\<rceil> = 1\<close> of it. The object is left as it
  was, so on a fresh instance the train and validation lists both stay empty.
\<close>

theorem setup_single_record_raises:
  "length (build_data_list fs (patient_dirs fs (data_dir m))) = 1 \<Longrightarrow>
   setup_dm fs perm m = \<lparr>raised = Some ValueError, self = m, printed = [Found 1]\<rparr>"
proof -
  assume one: "length (build_data_list fs (patient_dirs fs (data_dir m))) = 1"
  then have "build_data_list fs (patient_dirs fs (data_dir m)) \<noteq> []" by auto
  then have dirs: "patient_dirs fs (data_dir m) \<noteq> []" by auto
  from one have "train_test_split perm (build_data_list fs (patient_dirs fs (data_dir m))) = Inl ValueError"
    by (simp add: split_short)
  with dirs one show ?thesis by (simp add: setup_dm_dirs)
qed

text \<open>The scenario of the specification: two folders, the second without its label file.\<close>

theorem setup_single_record_raises_witness:
  "build_data_list fs_one (patient_dirs fs_one ''data'') = [make_record ''data/BraTS-GLI-00001''] \<and>
   setup_dm fs_one perm_desc (init_default ''data'') =
     \<lparr>raised = Some ValueError, self = init_default ''data'', printed = [Found 1]\<rparr> \<and>
   train_files (init_default ''data'') = [] \<and> val_files (init_default ''data'') = []"
proof -
  have a: "build_data_list fs_one (patient_dirs fs_one ''data'') = [make_record ''data/BraTS-GLI-00001'']"
    by code_simp
  then have b: "length (build_data_list fs_one (patient_dirs fs_one (data_dir (init_default ''data'')))) = 1"
    by (simp add: data_dir_init_default)
  have c: "train_files (init_default ''data'') = [] \<and> val_files (init_default ''data'') = []"
    by (simp add: init_default_def init_dm_def)
  from a setup_single_record_raises [OF b] c show ?thesis by simp
qed

text \<open>
  The claim as written fails on that scenario: the call raises, and the train list is
  not the single record.
\<close>

theorem single_record_counterexample:
  "build_data_list fs_one (patient_dirs fs_one ''data'') = [make_record ''data/BraTS-GLI-00001''] \<and>
   raised (setup_dm fs_one perm_desc (init_default ''data'')) = Some ValueError \<and>
   train_files (self (setup_dm fs_one perm_desc (init_default ''data''))) \<noteq>
     [make_record ''data/BraTS-GLI-00001'']"
  by code_simp

subsection \<open>C9: a failed call leaves the lists alone\<close>

text \<open>
  Claim C9. Whenever \<^verbatim>\<open>setup\<close> raises, for the empty directory listing or for a
  failure of the split call, \<^verbatim>\<open>train_files\<close> and \<^verbatim>\<open>val_files\<close> keep the values
  they had before the call, which are the empty lists on an object fresh from the
  constructor. They are assigned only when the split call has returned, and then they are
  the two parts it returned.
\<close>

theorem setup_failure_keeps_files:
  "(raised (setup_dm fs perm m) \<noteq> None \<longrightarrow>
      train_files (self (setup_dm fs perm m)) = train_files m \<and>
      val_files (self (setup_dm fs perm m)) = val_files m) \<and>
   (raised (setup_dm fs perm (init_dm d bs nw cr)) \<noteq> None \<longrightarrow>
      train_files (self (setup_dm fs perm (init_dm d bs nw cr))) = [] \<and>
      val_files (self (setup_dm fs perm (init_dm d bs nw cr))) = []) \<and>
   (raised (setup_dm fs perm m) = None \<longrightarrow>
      train_test_split perm (build_data_list fs (patient_dirs fs (data_dir m))) =
        Inr (train_files (self (setup_dm fs perm m)), val_files (self (setup_dm fs perm m))))"
proof -
  have keep: "raised (setup_dm fs perm m') \<noteq> None \<Longrightarrow> self (setup_dm fs perm m') = m'" for m'
    by (cases "patient_dirs fs (data_dir m') = []")
      (auto simp: setup_dm_no_dirs setup_dm_dirs split: sum.splits prod.splits)
  have assigned: "raised (setup_dm fs perm m) = None \<Longrightarrow>
      train_test_split perm (build_data_list fs (patient_dirs fs (data_dir m))) =
        Inr (train_files (self (setup_dm fs perm m)), val_files (self (setup_dm fs perm m)))"
    by (cases "patient_dirs fs (data_dir m) = []")
      (auto simp: setup_dm_no_dirs setup_dm_dirs split: sum.splits prod.splits)
  from keep [of m] keep [of "init_dm d bs nw cr"] assigned show ?thesis
    by (simp add: init_dm_def)
qed

text \<open>
  A failed call on an object that already holds lists, a failed call on a fresh object, and
  a call that completes.
\<close>

theorem setup_failure_keeps_files_witness:
  "raised (setup_dm fs_nodirs perm_desc dm_loaded) = Some FileNotFoundError \<and>
   train_files (self (setup_dm fs_nodirs perm_desc dm_loaded)) = [make_record ''data/P1''] \<and>
   val_files (self (setup_dm fs_nodirs perm_desc dm_loaded)) = [make_record ''data/P2''] \<and>
   raised (setup_dm fs_one perm_desc (init_dm ''data'' 1 4 1)) = Some ValueError \<and>
   train_files (self (setup_dm fs_one perm_desc (init_dm ''data'' 1 4 1))) = [] \<and>
   val_files (self (setup_dm fs_one perm_desc (init_dm ''data'' 1 4 1))) = [] \<and>
   raised (setup_dm fs_two perm_desc dm_loaded) = None \<and>
   train_test_split perm_desc (build_data_list fs_two (patient_dirs fs_two (data_dir dm_loaded))) =
     Inr (train_files (self (setup_dm fs_two perm_desc dm_loaded)),
          val_files (self (setup_dm fs_two perm_desc dm_loaded)))"
proof -
  have a: "raised (setup_dm fs_nodirs perm_desc dm_loaded) = Some FileNotFoundError" by code_simp
  have b: "raised (setup_dm fs_one perm_desc (init_dm ''data'' 1 4 1)) = Some ValueError" by code_simp
  have c: "raised (setup_dm fs_two perm_desc dm_loaded) = None" by code_simp
  have d: "train_files dm_loaded = [make_record ''data/P1''] \<and> val_files dm_loaded = [make_record ''data/P2'']"
    by (simp add: dm_loaded_def)
  show ?thesis
    using a b c d
      setup_failure_keeps_files [of fs_nodirs perm_desc dm_loaded "''data''" 1 4 1]
      setup_failure_keeps_files [of fs_one perm_desc dm_loaded "''data''" 1 4 1]
      setup_failure_keeps_files [of fs_two perm_desc dm_loaded "''data''" 1 4 1]
    by simp
qed

subsection \<open>C8: the settings of the two loaders\<close>

text \<open>
  Claim C8. Every validation loader has batch size 1 and does not shuffle, whatever batch
  size is configured; every training loader has the configured batch size and shuffles.
  Where the dataset's cache fill succeeds, the validation loader is built for every
  non-negative worker count, the training loader when moreover the batch size is positive
  and the train list is not empty.
\<close>

theorem loader_settings:
  "(\<forall>dl. val_dataloader m = Inr dl \<longrightarrow> dl_batch_size dl = 1 \<and> \<not> dl_shuffle dl) \<and>
   (\<forall>dl. train_dataloader m = Inr dl \<longrightarrow> dl_batch_size dl = batch_size m \<and> dl_shuffle dl) \<and>
   (0 \<le> num_workers m \<longrightarrow> (\<exists>dl. val_dataloader m = Inr dl)) \<and>
   (0 \<le> num_workers m \<and> 0 < batch_size m \<and> train_files m \<noteq> [] \<longrightarrow>
      (\<exists>dl. train_dataloader m = Inr dl))"
  by (auto simp: val_dataloader_def train_dataloader_def DataLoader_def CacheDataset_def Let_def
      split: if_splits)

text \<open>An object configured with batch size 2.\<close>

theorem loader_settings_witness:
  "batch_size dm_loaded = 2 \<and>
   (\<exists>dv dt. val_dataloader dm_loaded = Inr dv \<and> dl_batch_size dv = 1 \<and> \<not> dl_shuffle dv \<and>
      train_dataloader dm_loaded = Inr dt \<and> dl_batch_size dt = 2 \<and> dl_shuffle dt)"
proof -
  have a: "batch_size dm_loaded = 2" by (simp add: dm_loaded_def init_dm_def)
  have b: "0 \<le> num_workers dm_loaded \<and> 0 < batch_size dm_loaded \<and> train_files dm_loaded \<noteq> []"
    by (simp add: dm_loaded_def init_dm_def)
  note t = loader_settings [of dm_loaded]
  from t b obtain dv where dv: "val_dataloader dm_loaded = Inr dv" by blast
  from t b obtain dt where dt: "train_dataloader dm_loaded = Inr dt" by blast
  from t dv have "dl_batch_size dv = 1 \<and> \<not> dl_shuffle dv" by blast
  moreover from t dt a have "dl_batch_size dt = 2 \<and> dl_shuffle dt" by simp
  ultimately show ?thesis using a dv dt by blast
qed

subsection \<open>C10: the loaders before the scan\<close>

text \<open>
  Claim C10, as amended. On an object fresh from the constructor both lists are empty.
  \<^verbatim>\<open>val_dataloader\<close> then raises nothing (for a non-negative worker count) and
  returns a loader over the empty list. \<^verbatim>\<open>train_dataloader\<close> builds its dataset over
  the empty list as well, but the loader it asks for shuffles, and the library refuses to
  build a shuffling loader over an empty dataset: the call raises \<^verbatim>\<open>ValueError\<close>.
  Neither method takes the file system as an argument, so neither reads the directory
  index, and neither raises the no-data failure.
\<close>

theorem loaders_before_setup:
  "train_files (init_dm d bs nw cr) = [] \<and> val_files (init_dm d bs nw cr) = [] \<and>
   (0 \<le> nw \<longrightarrow>
      (\<exists>dl. val_dataloader (init_dm d bs nw cr) = Inr dl \<and> ds_data (dl_dataset dl) = [])) \<and>
   train_dataloader (init_dm d bs nw cr) = Inl ValueError \<and>
   val_dataloader (init_dm d bs nw cr) \<noteq> Inl FileNotFoundError"
  by (simp add: val_dataloader_def train_dataloader_def DataLoader_def CacheDataset_def Let_def
      init_dm_def)

theorem loaders_before_setup_witness:
  "(\<exists>dl. val_dataloader (init_dm ''data'' 1 4 1) = Inr dl \<and> ds_data (dl_dataset dl) = []) \<and>
   train_dataloader (init_dm ''data'' 1 4 1) = Inl ValueError"
  using loaders_before_setup [of "''data''" 1 4 1] by simp

text \<open>The claim as written fails for the training loader of a fresh object.\<close>

theorem train_loader_before_setup_counterexample:
  "train_files (init_default ''data'') = [] \<and>
   train_dataloader (init_default ''data'') = Inl ValueError"
  by (simp add: train_dataloader_def DataLoader_def CacheDataset_def Let_def
      init_default_def init_dm_def)

subsection \<open>Paths\<close>

lemma basename_no_sep: "CHR ''/'' \<notin> set (posix_basename p)"
  by (auto simp: posix_basename_def dest: set_takeWhileD)

lemma basename_nonempty: "p \<noteq> [] \<Longrightarrow> last p \<noteq> CHR ''/'' \<Longrightarrow> posix_basename p \<noteq> []"
  by (cases p rule: rev_cases) (simp_all add: posix_basename_def)

lemma hd_not_sep: "xs \<noteq> [] \<Longrightarrow> CHR ''/'' \<notin> set xs \<Longrightarrow> hd xs \<noteq> CHR ''/''"
  by (cases xs) auto

lemma modality_path_proper:
  assumes "p \<noteq> []" and "last p \<noteq> CHR ''/''"
  shows "modality_path p s = p @ CHR ''/'' # posix_basename p @ s"
proof -
  have "posix_basename p \<noteq> []" using assms by (rule basename_nonempty)
  then have "hd (posix_basename p @ s) \<noteq> CHR ''/''"
    using basename_no_sep [of p] by (simp add: hd_not_sep)
  with assms show ?thesis by (simp add: modality_path_def posix_join_def)
qed

lemma split_at_last_sep:
  assumes "CHR ''/'' \<notin> set t" and "CHR ''/'' \<notin> set t'"
    and "xs @ CHR ''/'' # t = ys @ CHR ''/'' # t'"
  shows "xs = ys"
proof -
  have "dropWhile (\<lambda>c. c \<noteq> CHR ''/'') (rev (zs @ CHR ''/'' # u)) = CHR ''/'' # rev zs"
    if "CHR ''/'' \<notin> set u" for zs u :: string
    using that by (auto simp: dropWhile_append3)
  from this [OF assms(1), of xs] this [OF assms(2), of ys] assms(3)
  show ?thesis by simp
qed

lemma modality_path_inj:
  assumes "p \<noteq> []" "last p \<noteq> CHR ''/''" "q \<noteq> []" "last q \<noteq> CHR ''/''"
    and "CHR ''/'' \<notin> set s"
    and "modality_path p s = modality_path q s"
  shows "p = q"
proof -
  from assms have "p @ CHR ''/'' # (posix_basename p @ s) = q @ CHR ''/'' # (posix_basename q @ s)"
    by (simp add: modality_path_proper)
  moreover have "CHR ''/'' \<notin> set (posix_basename p @ s)" "CHR ''/'' \<notin> set (posix_basename q @ s)"
    using assms(5) basename_no_sep by auto
  ultimately show ?thesis by (metis split_at_last_sep)
qed

lemma make_record_inj:
  assumes "p \<noteq> []" "last p \<noteq> CHR ''/''" "q \<noteq> []" "last q \<noteq> CHR ''/''"
    and "make_record p = make_record q"
  shows "p = q"
proof -
  from assms(5) have "modality_path p ''-seg.nii.gz'' = modality_path q ''-seg.nii.gz''"
    by (simp add: make_record_def seg_path_def)
  with assms(1-4) show ?thesis by (intro modality_path_inj [of p q "''-seg.nii.gz''"]) simp_all
qed

lemma modality_path_suffix: "\<exists>u. modality_path p s = u @ s"
proof -
  have "\<exists>u. posix_join a (b @ s) = u @ s" for a b
    by (auto simp: posix_join_def intro: exI [of _ "a @ b"] exI [of _ "a @ CHR ''/'' # b"])
  then show ?thesis by (simp add: modality_path_def)
qed

lemma t1_path_ne_seg_path: "t1_path p \<noteq> seg_path q"
proof
  assume eq: "t1_path p = seg_path q"
  obtain u where u: "t1_path p = u @ ''-t1n.nii.gz''"
    using modality_path_suffix [of p "''-t1n.nii.gz''"] by (auto simp: t1_path_def)
  obtain v where v: "seg_path q = v @ ''-seg.nii.gz''"
    using modality_path_suffix [of q "''-seg.nii.gz''"] by (auto simp: seg_path_def)
  from eq u v have "u @ ''-t1n.nii.gz'' = v @ ''-seg.nii.gz''" by simp
  then have "''-t1n.nii.gz'' = ''-seg.nii.gz''"
    by (subst (asm) append_eq_append_conv) simp_all
  then show False by simp
qed

subsection \<open>The directory listing\<close>

lemma posix_join_star:
  "posix_join rt ''*'' =
     (if rt = [] then ''*'' else if last rt = CHR ''/'' then rt @ ''*'' else rt @ ''/*'')"
  by (simp add: posix_join_def)

lemma all_sep_iff: "(s = replicate (length s) (CHR ''/'')) = list_all (\<lambda>c. c = CHR ''/'') s"
  by (induction s) auto

lemma rstrip_sep_id: "s \<noteq> [] \<Longrightarrow> last s \<noteq> CHR ''/'' \<Longrightarrow> rstrip_sep s = s"
  by (cases s rule: rev_cases) (simp_all add: rstrip_sep_def)

lemma rstrip_sep_snoc: "rstrip_sep (s @ ''/'') = rstrip_sep s"
  by (simp add: rstrip_sep_def)

lemma fst_posix_split:
  "fst (posix_split p) =
     (if rev (dropWhile (\<lambda>c. c \<noteq> CHR ''/'') (rev p)) \<noteq> [] \<and>
         \<not> list_all (\<lambda>c. c = CHR ''/'') (rev (dropWhile (\<lambda>c. c \<noteq> CHR ''/'') (rev p)))
      then rstrip_sep (rev (dropWhile (\<lambda>c. c \<noteq> CHR ''/'') (rev p)))
      else rev (dropWhile (\<lambda>c. c \<noteq> CHR ''/'') (rev p)))"
  unfolding posix_split_def Let_def fst_conv all_sep_iff [symmetric] by simp

lemma not_all_sep_last: "s \<noteq> [] \<Longrightarrow> last s \<noteq> CHR ''/'' \<Longrightarrow> \<not> list_all (\<lambda>c. c = CHR ''/'') s"
  by (cases s rule: rev_cases) simp_all

lemma glob_dirname_eq:
  "glob_dirname rt = (if list_all (\<lambda>c. c = CHR ''/'') rt then rt else rstrip_sep rt)"
proof (cases "rt = []")
  case True
  then show ?thesis by (simp add: glob_dirname_def posix_join_star fst_posix_split)
next
  case False
  show ?thesis
  proof (cases "last rt = CHR ''/''")
    case True
    with False have "dropWhile (\<lambda>c. c \<noteq> CHR ''/'') (rev rt) = rev rt"
      by (simp add: dropWhile_eq_self_iff hd_rev)
    with False True have "rev (dropWhile (\<lambda>c. c \<noteq> CHR ''/'') (rev (posix_join rt ''*''))) = rt"
      by (simp add: posix_join_star)
    with False show ?thesis
      unfolding glob_dirname_def fst_posix_split by simp
  next
    case nosep: False
    with False have "rev (dropWhile (\<lambda>c. c \<noteq> CHR ''/'') (rev (posix_join rt ''*''))) = rt @ ''/''"
      by (simp add: posix_join_star)
    moreover have "\<not> list_all (\<lambda>c. c = CHR ''/'') rt"
      using False nosep by (rule not_all_sep_last)
    moreover have "rstrip_sep (rt @ ''/'') = rt" and "rstrip_sep rt = rt"
      using False nosep by (simp_all add: rstrip_sep_snoc rstrip_sep_id)
    ultimately show ?thesis
      unfolding glob_dirname_def fst_posix_split by simp
  qed
qed

lemma has_magic_iff:
  "has_magic s = (\<exists>c\<in>set s. c = CHR ''*'' \<or> c = CHR ''?'' \<or> c = CHR ''['')"
  by (simp add: has_magic_def list_ex_iff)

lemma set_rstrip_sep: "set (rstrip_sep s) \<subseteq> set s"
  by (auto simp: rstrip_sep_def dest: set_dropWhileD)

lemma glob_dirname_no_magic: "\<not> has_magic rt \<Longrightarrow> \<not> has_magic (glob_dirname rt)"
  using set_rstrip_sep [of rt] by (auto simp: glob_dirname_eq has_magic_iff)

lemma entry_path_fun:
  "entry_path rt = (if glob_dirname rt = [] then (\<lambda>n. n) else posix_join (glob_dirname rt))"
  by (rule ext) (simp add: entry_path_def)

lemma glob_glob_plain:
  assumes "\<not> has_magic rt"
  shows "glob_glob fs (posix_join rt ''*'') =
    map (entry_path rt) (filter (\<lambda>n. \<not> ishidden n) (fs_scandir fs (listed_dir rt)))"
proof -
  have "\<not> has_magic (glob_dirname rt)" using assms by (rule glob_dirname_no_magic)
  then show ?thesis
    unfolding glob_glob_def glob_dirname_def [symmetric] Let_def
    by (simp add: glob1_def entry_path_fun listed_dir_def)
qed

lemma sorted_patient_dirs: "sorted (patient_dirs fs rt)"
  by (simp add: patient_dirs_def sorted_wrt_filter)

lemma isdir_patient_dirs: "p \<in> set (patient_dirs fs rt) \<Longrightarrow> fs_isdir fs p"
  by (simp add: patient_dirs_def)

lemma entry_path_plain:
  assumes "\<not> redundant_sep rt" and "n \<noteq> []" and "hd n \<noteq> CHR ''/''"
  shows "entry_path rt n = posix_join rt n"
proof (cases "list_all (\<lambda>c. c = CHR ''/'') rt")
  case True
  then show ?thesis
    by (cases "rt = []") (simp_all add: entry_path_def glob_dirname_eq posix_join_def)
next
  case notall: False
  then have ne: "rt \<noteq> []" by auto
  show ?thesis
  proof (cases "last rt = CHR ''/''")
    case False
    with ne notall show ?thesis
      by (simp add: entry_path_def glob_dirname_eq rstrip_sep_id)
  next
    case True
    with ne obtain b where rt: "rt = b @ ''/''"
      by (metis append_butlast_last_id)
    from notall have b: "b \<noteq> []" and nb: "\<not> list_all (\<lambda>c. c = CHR ''/'') b"
      unfolding rt by auto
    from nb have "list_ex (\<lambda>c. c \<noteq> CHR ''/'') (b @ ''/'')"
      by (auto simp: list_all_iff list_ex_iff)
    moreover from b have "2 \<le> length (b @ ''/'')"
      by (cases b) simp_all
    ultimately have l: "last b \<noteq> CHR ''/''"
      using assms(1) unfolding rt by (simp add: redundant_sep_def)
    have "posix_join (b @ ''/'') n = b @ CHR ''/'' # n"
      using assms(2,3) by (simp add: posix_join_def)
    moreover have "glob_dirname (b @ ''/'') = b"
      using nb b l by (simp add: glob_dirname_eq rstrip_sep_snoc [simplified] rstrip_sep_id)
    then have "entry_path (b @ ''/'') n = b @ CHR ''/'' # n"
      using b l assms(2,3) by (simp add: entry_path_def posix_join_def)
    ultimately show ?thesis unfolding rt by simp
  qed
qed

lemma basename_append_sep:
  assumes "CHR ''/'' \<notin> set n"
  shows "posix_basename (zs @ CHR ''/'' # n) = n"
proof -
  have "takeWhile (\<lambda>c. c \<noteq> CHR ''/'') (rev n @ CHR ''/'' # rev zs) = rev n"
    using assms by (auto simp: takeWhile_append)
  then show ?thesis by (simp add: posix_basename_def)
qed

lemma basename_plain:
  assumes "CHR ''/'' \<notin> set n"
  shows "posix_basename n = n"
proof -
  have "takeWhile (\<lambda>c. c \<noteq> CHR ''/'') (rev n) = rev n"
    using assms by auto
  then show ?thesis by (simp only: posix_basename_def rev_rev_ident)
qed

lemma basename_join:
  assumes "n \<noteq> []" and "CHR ''/'' \<notin> set n"
  shows "posix_basename (posix_join rt n) = n"
proof -
  note h = hd_not_sep [OF assms]
  show ?thesis
  proof (cases "rt = []")
    case True
    with h assms show ?thesis by (simp add: posix_join_def basename_plain)
  next
    case False
    show ?thesis
    proof (cases "last rt = CHR ''/''")
      case True
      with False obtain b where "rt = b @ ''/''" by (metis append_butlast_last_id)
      with h assms(1) have "posix_join rt n = b @ CHR ''/'' # n" by (simp add: posix_join_def)
      with assms(2) show ?thesis by (simp add: basename_append_sep)
    next
      case nosep: False
      with False h assms(1) have "posix_join rt n = rt @ CHR ''/'' # n" by (simp add: posix_join_def)
      with assms(2) show ?thesis by (simp add: basename_append_sep)
    qed
  qed
qed

lemma make_record_join:
  assumes "n \<noteq> []" and "CHR ''/'' \<notin> set n"
  shows "make_record (posix_join rt n) = spec_record rt n"
  using basename_join [OF assms, of rt]
  by (simp add: make_record_def spec_record_def spec_patient_file_def modality_path_def
      t1_path_def t1ce_path_def t2_path_def flair_path_def seg_path_def)

lemma last_not_sep: "xs \<noteq> [] \<Longrightarrow> CHR ''/'' \<notin> set xs \<Longrightarrow> last xs \<noteq> CHR ''/''"
  by (cases xs rule: rev_cases) auto

lemma spec_patient_file_literal:
  assumes "rt \<noteq> []" and "last rt \<noteq> CHR ''/''" and "n \<noteq> []" and "CHR ''/'' \<notin> set n"
  shows "spec_patient_file rt n s = rt @ ''/'' @ n @ ''/'' @ n @ s"
  using assms hd_not_sep [OF assms(3,4)] last_not_sep [OF assms(3,4)]
  by (simp add: spec_patient_file_def posix_join_def)

lemma spec_patient_file_empty_root:
  assumes "n \<noteq> []" and "CHR ''/'' \<notin> set n"
  shows "spec_patient_file [] n s = n @ ''/'' @ n @ s"
  using assms hd_not_sep [OF assms] last_not_sep [OF assms]
  by (simp add: spec_patient_file_def posix_join_def)

lemma spec_patient_file_sep_root:
  assumes "rt \<noteq> []" and "last rt = CHR ''/''" and "n \<noteq> []" and "CHR ''/'' \<notin> set n"
  shows "spec_patient_file rt n s = rt @ n @ ''/'' @ n @ s"
  using assms hd_not_sep [OF assms(3,4)] last_not_sep [OF assms(3,4)]
  by (simp add: spec_patient_file_def posix_join_def)

lemma patient_dirs_entries:
  assumes "\<not> has_magic rt" and "p \<in> set (patient_dirs fs rt)"
  obtains n where "n \<in> set (fs_scandir fs (listed_dir rt))" and "p = entry_path rt n"
  using assms by (auto simp: patient_dirs_def glob_glob_plain)

lemma build_data_list_subset:
  "r \<in> set (build_data_list fs dirs) \<Longrightarrow> \<exists>p\<in>set dirs. r = make_record p"
  by (auto simp: build_data_list_filter)

lemma posix_join_relative:
  "n \<noteq> [] \<Longrightarrow> hd n \<noteq> CHR ''/'' \<Longrightarrow> d \<noteq> [] \<Longrightarrow>
   posix_join d n = (if last d = CHR ''/'' then d @ n else d @ CHR ''/'' # n)"
  by (simp add: posix_join_def)

lemma entry_path_inj:
  assumes "n \<noteq> []" "hd n \<noteq> CHR ''/''" "n' \<noteq> []" "hd n' \<noteq> CHR ''/''"
    and "entry_path rt n = entry_path rt n'"
  shows "n = n'"
  using assms by (auto simp: entry_path_def posix_join_relative split: if_splits)

lemma entry_path_proper:
  assumes "n \<noteq> []" and "CHR ''/'' \<notin> set n"
  shows "entry_path rt n \<noteq> [] \<and> last (entry_path rt n) \<noteq> CHR ''/''"
  using assms hd_not_sep [OF assms] last_not_sep [OF assms]
  by (auto simp: entry_path_def posix_join_relative)

text \<open>
  The statements about the data list below ask that the scanned paths are pairwise
  distinct, not empty and not ending in a separator. For a root without wildcard
  characters that is the case as soon as the listing reports every entry once, under a
  name that is not empty and holds no separator, which is what a directory listing does.
\<close>

lemma patient_dirs_proper:
  assumes "\<not> has_magic rt"
    and "distinct (fs_scandir fs (listed_dir rt))"
    and "\<forall>n\<in>set (fs_scandir fs (listed_dir rt)). n \<noteq> [] \<and> CHR ''/'' \<notin> set n"
  shows "distinct (patient_dirs fs rt)"
    and "\<forall>q\<in>set (patient_dirs fs rt). q \<noteq> [] \<and> last q \<noteq> CHR ''/''"
proof -
  let ?names = "filter (\<lambda>n. \<not> ishidden n) (fs_scandir fs (listed_dir rt))"
  have names: "n \<noteq> [] \<and> CHR ''/'' \<notin> set n" if "n \<in> set ?names" for n
    using that assms(3) by auto
  have "inj_on (entry_path rt) (set ?names)"
  proof (rule inj_onI)
    fix n n' assume "n \<in> set ?names" "n' \<in> set ?names" "entry_path rt n = entry_path rt n'"
    with names [of n] names [of n'] show "n = n'"
      by (intro entry_path_inj [of n n' rt]) (auto simp: hd_not_sep)
  qed
  with assms(2) have "distinct (map (entry_path rt) ?names)"
    by (simp add: distinct_map)
  then show "distinct (patient_dirs fs rt)"
    by (simp add: patient_dirs_def glob_glob_plain [OF assms(1)])
  show "\<forall>q\<in>set (patient_dirs fs rt). q \<noteq> [] \<and> last q \<noteq> CHR ''/''"
  proof
    fix q assume "q \<in> set (patient_dirs fs rt)"
    then obtain n where "n \<in> set ?names" and "q = entry_path rt n"
      by (auto simp: patient_dirs_def glob_glob_plain [OF assms(1)])
    with names [of n] show "q \<noteq> [] \<and> last q \<noteq> CHR ''/''"
      by (simp add: entry_path_proper)
  qed
qed

subsection \<open>C7: which entries the scan considers\<close>

text \<open>
  Claim C7, as amended. For a root path without wildcard characters, the scan considers
  exactly the immediate children of the root whose names do not begin with a dot and that
  are directories, each as often as the listing reports it, in lexicographically sorted
  order. Every entry that is not a directory is excluded, and so is every hidden entry,
  directory or not; every other immediate child directory is considered.
\<close>

theorem scan_visible_child_directories:
  assumes "\<not> has_magic rt"
  shows "sorted (patient_dirs fs rt) \<and>
    (\<forall>p\<in>set (patient_dirs fs rt). fs_isdir fs p) \<and>
    mset (patient_dirs fs rt) =
      mset (filter (fs_isdir fs)
        (map (entry_path rt) (filter (\<lambda>n. \<not> ishidden n) (fs_scandir fs (listed_dir rt)))))"
proof (intro conjI ballI)
  show "sorted (patient_dirs fs rt)" by (rule sorted_patient_dirs)
next
  fix p assume "p \<in> set (patient_dirs fs rt)"
  then show "fs_isdir fs p" by (rule isdir_patient_dirs)
next
  have "mset (patient_dirs fs rt) = mset (filter (fs_isdir fs) (glob_glob fs (posix_join rt ''*'')))"
    by (simp add: patient_dirs_def)
  then show "mset (patient_dirs fs rt) =
      mset (filter (fs_isdir fs)
        (map (entry_path rt) (filter (\<lambda>n. \<not> ishidden n) (fs_scandir fs (listed_dir rt)))))"
    by (simp only: glob_glob_plain [OF assms])
qed

text \<open>A root that holds a file, a hidden folder and a patient folder.\<close>

theorem scan_visible_child_directories_witness:
  "fs_scandir fs_novalid (listed_dir ''data'') = [''notes.txt'', ''.cache'', ''P1''] \<and>
   fs_isdir fs_novalid (entry_path ''data'' ''P1'') \<and>
   \<not> fs_isdir fs_novalid (entry_path ''data'' ''notes.txt'') \<and>
   sorted (patient_dirs fs_novalid ''data'') \<and>
   mset (patient_dirs fs_novalid ''data'') = {#entry_path ''data'' ''P1''#}"
proof -
  have m: "\<not> has_magic ''data''" by code_simp
  have l: "fs_scandir fs_novalid (listed_dir ''data'') = [''notes.txt'', ''.cache'', ''P1'']"
    by code_simp
  have d: "fs_isdir fs_novalid (entry_path ''data'' ''P1'')" by code_simp
  have f: "\<not> fs_isdir fs_novalid (entry_path ''data'' ''notes.txt'')" by code_simp
  have h: "\<not> ishidden ''notes.txt'' \<and> ishidden ''.cache'' \<and> \<not> ishidden ''P1''" by code_simp
  from scan_visible_child_directories [OF m, of fs_novalid] l d f h show ?thesis
    by simp
qed

text \<open>
  The claim as written fails for a hidden folder: it is an immediate child directory of
  the root and the scan does not consider it.
\<close>

theorem hidden_directory_counterexample:
  "List.member (fs_scandir fs_novalid ''data'') ''.cache'' \<and>
   fs_isdir fs_novalid (posix_join ''data'' ''.cache'') \<and>
   \<not> List.member (patient_dirs fs_novalid ''data'') (posix_join ''data'' ''.cache'')"
  by code_simp

subsection \<open>C5: determinism\<close>

lemma sort_mset_cong: "mset xs = mset ys \<Longrightarrow> sort xs = sort (ys :: 'a :: linorder list)"
  by (rule properties_for_sort) simp_all

lemma mset_concat_map_cong:
  "(\<And>d. mset (f d) = mset (g d)) \<Longrightarrow> mset (concat (map f ds)) = mset (concat (map g ds))"
  by (induction ds) simp_all

lemma mset_glob1_cong:
  "mset (fs_scandir fs2 (if d = [] then ''.'' else d)) =
   mset (fs_scandir fs1 (if d = [] then ''.'' else d)) \<Longrightarrow>
   mset (glob1 fs2 d) = mset (glob1 fs1 d)"
  by (simp add: glob1_def)

lemma mset_glob_glob_cong:
  assumes "\<forall>d. mset (fs_scandir fs2 d) = mset (fs_scandir fs1 d)"
    and "fs_iglob_dirs fs2 = fs_iglob_dirs fs1"
  shows "mset (glob_glob fs2 pat) = mset (glob_glob fs1 pat)"
proof -
  have g: "mset (glob1 fs2 d) = mset (glob1 fs1 d)" for d
    using assms(1) by (intro mset_glob1_cong) simp
  then have "mset (map (posix_join d) (glob1 fs2 d)) = mset (map (posix_join d) (glob1 fs1 d))" for d
    by simp
  then have "mset (concat (map (\<lambda>d. map (posix_join d) (glob1 fs2 d)) ds)) =
      mset (concat (map (\<lambda>d. map (posix_join d) (glob1 fs1 d)) ds))" for ds
    by (rule mset_concat_map_cong)
  with g assms(2) show ?thesis
    by (simp add: glob_glob_def Let_def)
qed

lemma patient_dirs_relisted:
  assumes "\<forall>d. mset (fs_scandir fs2 d) = mset (fs_scandir fs1 d)"
    and "fs_isdir fs2 = fs_isdir fs1" and "fs_iglob_dirs fs2 = fs_iglob_dirs fs1"
  shows "patient_dirs fs2 rt = patient_dirs fs1 rt"
proof -
  have "sort (glob_glob fs2 (posix_join rt ''*'')) = sort (glob_glob fs1 (posix_join rt ''*''))"
    using assms(1,3) by (intro sort_mset_cong mset_glob_glob_cong)
  with assms(2) show ?thesis by (simp add: patient_dirs_def)
qed

lemma build_data_list_exists_cong:
  "fs_exists fs2 = fs_exists fs1 \<Longrightarrow> build_data_list fs2 ds = build_data_list fs1 ds"
  by (simp add: build_data_list_filter)

lemma setup_dm_scan_cong:
  assumes "patient_dirs fs2 (data_dir m) = patient_dirs fs1 (data_dir m)"
    and "build_data_list fs2 (patient_dirs fs1 (data_dir m)) =
         build_data_list fs1 (patient_dirs fs1 (data_dir m))"
  shows "setup_dm fs2 perm m = setup_dm fs1 perm m"
  using assms by (simp add: setup_dm_def Let_def)

lemma setup_dm_again:
  "raised (setup_dm fs perm (self (setup_dm fs perm m))) = raised (setup_dm fs perm m) \<and>
   printed (setup_dm fs perm (self (setup_dm fs perm m))) = printed (setup_dm fs perm m) \<and>
   self (setup_dm fs perm (self (setup_dm fs perm m))) = self (setup_dm fs perm m)"
  by (simp add: setup_dm_def Let_def split: sum.splits prod.splits)

text \<open>
  Claim C5. The outcome of \<^verbatim>\<open>setup\<close> does not depend on the order in which the
  operating system lists a directory: over the same root contents (the same entries, the
  same directories and files) and with the permutation the fixed seed gives, two
  invocations end alike, with the same records in the train list and in the validation
  list, in the same order. That holds for two separate objects and for a second
  invocation on the object the first one left.
\<close>

theorem setup_deterministic:
  assumes "\<forall>d. mset (fs_scandir fs2 d) = mset (fs_scandir fs1 d)"
    and "fs_isdir fs2 = fs_isdir fs1"
    and "fs_exists fs2 = fs_exists fs1"
    and "fs_iglob_dirs fs2 = fs_iglob_dirs fs1"
  shows "setup_dm fs2 perm m = setup_dm fs1 perm m \<and>
    raised (setup_dm fs2 perm (self (setup_dm fs1 perm m))) = raised (setup_dm fs1 perm m) \<and>
    train_files (self (setup_dm fs2 perm (self (setup_dm fs1 perm m)))) =
      train_files (self (setup_dm fs1 perm m)) \<and>
    val_files (self (setup_dm fs2 perm (self (setup_dm fs1 perm m)))) =
      val_files (self (setup_dm fs1 perm m))"
proof -
  have same: "setup_dm fs2 perm m' = setup_dm fs1 perm m'" for m'
    using assms
    by (intro setup_dm_scan_cong patient_dirs_relisted build_data_list_exists_cong)
  from same [of m] same [of "self (setup_dm fs1 perm m)"] setup_dm_again [of fs1 perm m]
  show ?thesis by simp
qed

text \<open>Three patient folders, listed in two different orders.\<close>

theorem setup_deterministic_witness:
  "fs_scandir fs_three ''data'' = [''P2'', ''P3'', ''P1''] \<and>
   fs_scandir fs_three_relisted ''data'' = [''P1'', ''P2'', ''P3''] \<and>
   raised (setup_dm fs_three perm_desc (init_default ''data'')) = None \<and>
   setup_dm fs_three_relisted perm_desc (init_default ''data'') =
     setup_dm fs_three perm_desc (init_default ''data'') \<and>
   train_files (self (setup_dm fs_three_relisted perm_desc
       (self (setup_dm fs_three perm_desc (init_default ''data''))))) =
     train_files (self (setup_dm fs_three perm_desc (init_default ''data''))) \<and>
   val_files (self (setup_dm fs_three_relisted perm_desc
       (self (setup_dm fs_three perm_desc (init_default ''data''))))) =
     val_files (self (setup_dm fs_three perm_desc (init_default ''data'')))"
proof -
  have a: "fs_scandir fs_three ''data'' = [''P2'', ''P3'', ''P1'']"
    by (simp add: fs_three_def mk_fs_def)
  have b: "fs_scandir fs_three_relisted ''data'' = [''P1'', ''P2'', ''P3'']"
    by (simp add: fs_three_relisted_def)
  have c: "raised (setup_dm fs_three perm_desc (init_default ''data'')) = None" by code_simp
  have l: "\<forall>d. mset (fs_scandir fs_three_relisted d) = mset (fs_scandir fs_three d)"
    by (simp add: fs_three_relisted_def fs_three_def mk_fs_def)
  have i: "fs_isdir fs_three_relisted = fs_isdir fs_three" by (simp add: fs_three_relisted_def)
  have e: "fs_exists fs_three_relisted = fs_exists fs_three" by (simp add: fs_three_relisted_def)
  have g: "fs_iglob_dirs fs_three_relisted = fs_iglob_dirs fs_three"
    by (simp add: fs_three_relisted_def)
  from setup_deterministic [OF l i e g, of perm_desc "init_default ''data''"] a b c
  show ?thesis by simp
qed

subsection \<open>C6: the paths of a record\<close>

text \<open>
  Claim C6, as amended. Let the root path hold no wildcard character and not end in
  redundant separators, and let the listing report proper entry names. Then every scanned
  directory is the root joined with its base name \<open>P\<close>, which is an entry of the root, and
  its record holds exactly four modality paths in the order T1, T1 with contrast, T2,
  FLAIR and one label path, each the path join of the root, \<open>P\<close> and \<open>P\<close> followed by
  the fixed suffix; every record of the data list is such a record. As text the join is
  \<^verbatim>\<open><root>/P/P<suffix>\<close> for a root that is not empty and does not end in a
  separator, \<^verbatim>\<open>P/P<suffix>\<close> for the empty root, and \<^verbatim>\<open><root>P/P<suffix>\<close> for a
  root that ends in a separator.
\<close>

theorem record_paths_by_construction:
  assumes "\<not> has_magic rt" and "\<not> redundant_sep rt"
    and "\<forall>n\<in>set (fs_scandir fs (listed_dir rt)). n \<noteq> [] \<and> CHR ''/'' \<notin> set n"
  shows "(\<forall>p\<in>set (patient_dirs fs rt).
            posix_basename p \<in> set (fs_scandir fs (listed_dir rt)) \<and>
            p = posix_join rt (posix_basename p) \<and>
            make_record p = spec_record rt (posix_basename p)) \<and>
         (\<forall>r\<in>set (build_data_list fs (patient_dirs fs rt)).
            \<exists>p\<in>set (patient_dirs fs rt). r = spec_record rt (posix_basename p)) \<and>
         (\<forall>n\<in>set (fs_scandir fs (listed_dir rt)). \<forall>s.
            rt \<noteq> [] \<and> last rt \<noteq> CHR ''/'' \<longrightarrow>
            spec_patient_file rt n s = rt @ ''/'' @ n @ ''/'' @ n @ s) \<and>
         (\<forall>n\<in>set (fs_scandir fs (listed_dir rt)). \<forall>s.
            rt = [] \<longrightarrow> spec_patient_file rt n s = n @ ''/'' @ n @ s) \<and>
         (\<forall>n\<in>set (fs_scandir fs (listed_dir rt)). \<forall>s.
            rt \<noteq> [] \<and> last rt = CHR ''/'' \<longrightarrow>
            spec_patient_file rt n s = rt @ n @ ''/'' @ n @ s)"
proof -
  have scanned: "posix_basename p \<in> set (fs_scandir fs (listed_dir rt)) \<and>
      p = posix_join rt (posix_basename p) \<and>
      make_record p = spec_record rt (posix_basename p)"
    if "p \<in> set (patient_dirs fs rt)" for p
  proof -
    from assms(1) that obtain n
      where n: "n \<in> set (fs_scandir fs (listed_dir rt))" and p: "p = entry_path rt n"
      by (rule patient_dirs_entries)
    from n assms(3) have ne: "n \<noteq> []" and ns: "CHR ''/'' \<notin> set n" by auto
    from assms(2) ne hd_not_sep [OF ne ns] have "entry_path rt n = posix_join rt n"
      by (rule entry_path_plain)
    with p have pj: "p = posix_join rt n" by simp
    then have b: "posix_basename p = n" using ne ns by (simp add: basename_join)
    from pj have "make_record p = spec_record rt n" using ne ns by (simp add: make_record_join)
    with n pj b show ?thesis by simp
  qed
  have listed: "\<exists>p\<in>set (patient_dirs fs rt). r = spec_record rt (posix_basename p)"
    if "r \<in> set (build_data_list fs (patient_dirs fs rt))" for r
  proof -
    from that obtain p where "p \<in> set (patient_dirs fs rt)" and "r = make_record p"
      using build_data_list_subset by blast
    with scanned [of p] show ?thesis by auto
  qed
  have literal: "spec_patient_file rt n s = rt @ ''/'' @ n @ ''/'' @ n @ s"
    if "n \<in> set (fs_scandir fs (listed_dir rt))" and "rt \<noteq> [] \<and> last rt \<noteq> CHR ''/''" for n s
    using that assms(3) by (intro spec_patient_file_literal) auto
  have empty: "spec_patient_file rt n s = n @ ''/'' @ n @ s"
    if "n \<in> set (fs_scandir fs (listed_dir rt))" and "rt = []" for n s
    using that assms(3) by (simp add: spec_patient_file_empty_root)
  have sep: "spec_patient_file rt n s = rt @ n @ ''/'' @ n @ s"
    if "n \<in> set (fs_scandir fs (listed_dir rt))" and "rt \<noteq> [] \<and> last rt = CHR ''/''" for n s
    using that assms(3) by (intro spec_patient_file_sep_root) auto
  from scanned listed literal empty sep show ?thesis by blast
qed

text \<open>An ordinary root, and the empty root over the current directory.\<close>

theorem record_paths_by_construction_witness:
  "patient_dirs fs_two ''data'' = [''data/P1'', ''data/P2''] \<and>
   posix_basename ''data/P1'' = ''P1'' \<and>
   make_record ''data/P1'' = spec_record ''data'' ''P1'' \<and>
   spec_record ''data'' ''P1'' =
     \<lparr>images = [''data/P1/P1-t1n.nii.gz'', ''data/P1/P1-t1c.nii.gz'',
                ''data/P1/P1-t2w.nii.gz'', ''data/P1/P1-t2f.nii.gz''],
      label = ''data/P1/P1-seg.nii.gz''\<rparr> \<and>
   spec_patient_file ''data'' ''P1'' ''-seg.nii.gz'' =
     ''data'' @ ''/'' @ ''P1'' @ ''/'' @ ''P1'' @ ''-seg.nii.gz'' \<and>
   patient_dirs fs_cwd [] = [''P1''] \<and>
   make_record ''P1'' = spec_record [] ''P1'' \<and>
   spec_patient_file [] ''P1'' ''-seg.nii.gz'' = ''P1'' @ ''/'' @ ''P1'' @ ''-seg.nii.gz'' \<and>
   label (make_record ''P1'') = ''P1/P1-seg.nii.gz''"
proof -
  have m: "\<not> has_magic ''data''" by code_simp
  have r: "\<not> redundant_sep ''data''" by code_simp
  have l: "fs_scandir fs_two (listed_dir ''data'') = [''P2'', ''P1'']" by code_simp
  then have n: "\<forall>n\<in>set (fs_scandir fs_two (listed_dir ''data'')). n \<noteq> [] \<and> CHR ''/'' \<notin> set n"
    by simp
  have d: "patient_dirs fs_two ''data'' = [''data/P1'', ''data/P2'']" by code_simp
  have b: "posix_basename ''data/P1'' = ''P1''" by code_simp
  have s: "spec_record ''data'' ''P1'' =
     \<lparr>images = [''data/P1/P1-t1n.nii.gz'', ''data/P1/P1-t1c.nii.gz'',
                ''data/P1/P1-t2w.nii.gz'', ''data/P1/P1-t2f.nii.gz''],
      label = ''data/P1/P1-seg.nii.gz''\<rparr>" by code_simp
  have mem: "''data/P1'' \<in> set (patient_dirs fs_two ''data'')" unfolding d by simp
  have memn: "''P1'' \<in> set (fs_scandir fs_two (listed_dir ''data''))" unfolding l by simp
  have ne: "''data'' \<noteq> [] \<and> last ''data'' \<noteq> CHR ''/''" by simp
  note t = record_paths_by_construction [OF m r n]
  from t mem
  have "make_record ''data/P1'' = spec_record ''data'' (posix_basename ''data/P1'')" by blast
  then have c1: "make_record ''data/P1'' = spec_record ''data'' ''P1''" by (simp only: b)
  from t memn ne
  have c2: "spec_patient_file ''data'' ''P1'' ''-seg.nii.gz'' =
     ''data'' @ ''/'' @ ''P1'' @ ''/'' @ ''P1'' @ ''-seg.nii.gz''" by blast
  have m0: "\<not> has_magic []" by code_simp
  have r0: "\<not> redundant_sep []" by code_simp
  have l0: "fs_scandir fs_cwd (listed_dir []) = [''P1'']" by code_simp
  then have n0: "\<forall>n\<in>set (fs_scandir fs_cwd (listed_dir [])). n \<noteq> [] \<and> CHR ''/'' \<notin> set n"
    by simp
  have d0: "patient_dirs fs_cwd [] = [''P1'']" by code_simp
  have b0: "posix_basename ''P1'' = ''P1''" by code_simp
  have mem0: "''P1'' \<in> set (patient_dirs fs_cwd [])" unfolding d0 by simp
  have memn0: "''P1'' \<in> set (fs_scandir fs_cwd (listed_dir []))" unfolding l0 by simp
  have lab: "label (make_record ''P1'') = ''P1/P1-seg.nii.gz''" by code_simp
  note t0 = record_paths_by_construction [OF m0 r0 n0]
  from t0 mem0
  have "make_record ''P1'' = spec_record [] (posix_basename ''P1'')" by blast
  then have c3: "make_record ''P1'' = spec_record [] ''P1''" by (simp only: b0)
  from t0 memn0
  have c4: "spec_patient_file [] ''P1'' ''-seg.nii.gz'' = ''P1'' @ ''/'' @ ''P1'' @ ''-seg.nii.gz''"
    by blast
  from d b c1 s c2 d0 c3 c4 lab show ?thesis by (intro conjI)
qed

text \<open>
  The claim as written fails for a root written with two trailing separators: the
  listing reports the entries under the root without them, and the record paths differ
  from the join of the root as given.
\<close>

theorem redundant_separator_counterexample:
  "build_data_list fs_two (patient_dirs fs_two ''data//'') =
     [make_record ''data/P1'', make_record ''data/P2''] \<and>
   posix_basename ''data/P1'' = ''P1'' \<and>
   label (make_record ''data/P1'') = ''data/P1/P1-seg.nii.gz'' \<and>
   label (spec_record ''data//'' ''P1'') = ''data//P1/P1-seg.nii.gz'' \<and>
   hd (images (make_record ''data/P1'')) = ''data/P1/P1-t1n.nii.gz'' \<and>
   hd (images (spec_record ''data//'' ''P1'')) = ''data//P1/P1-t1n.nii.gz'' \<and>
   make_record ''data/P1'' \<noteq> spec_record ''data//'' ''P1''"
  by code_simp

subsection \<open>C4: which folders yield a record\<close>

lemma safe_indexing_subset: "safe_indexing xs is = Some ys \<Longrightarrow> set ys \<subseteq> set xs"
  by (induction "is" arbitrary: ys) (auto split: if_splits option.splits)

lemma split_parts_subset:
  "train_test_split perm xs = Inr (tr, te) \<Longrightarrow> set tr \<subseteq> set xs \<and> set te \<subseteq> set xs"
  by (auto simp: train_test_split_def Let_def split: if_splits option.splits
      dest: safe_indexing_subset)

lemma setup_dm_lists_subset:
  assumes "raised (setup_dm fs perm m) = None"
  shows "set (train_files (self (setup_dm fs perm m))) \<union>
         set (val_files (self (setup_dm fs perm m))) \<subseteq>
         set (build_data_list fs (patient_dirs fs (data_dir m)))"
proof (cases "patient_dirs fs (data_dir m) = []")
  case True
  with assms show ?thesis by (simp add: setup_dm_no_dirs)
next
  case False
  with assms obtain tr te
    where s: "train_test_split perm (build_data_list fs (patient_dirs fs (data_dir m))) = Inr (tr, te)"
    by (auto simp: setup_dm_dirs split: sum.splits)
  with False have "train_files (self (setup_dm fs perm m)) = tr"
    and "val_files (self (setup_dm fs perm m)) = te"
    by (simp_all add: setup_dm_dirs)
  with split_parts_subset [OF s] show ?thesis by simp
qed

lemma t1_path_inj:
  assumes "p \<noteq> []" "last p \<noteq> CHR ''/''" "q \<noteq> []" "last q \<noteq> CHR ''/''"
    and "t1_path p = t1_path q"
  shows "p = q"
  using assms by (intro modality_path_inj [of p q "''-t1n.nii.gz''"]) (simp_all add: t1_path_def)

lemma length_filter_remove:
  "distinct xs \<Longrightarrow> p \<in> set xs \<Longrightarrow> P p \<Longrightarrow>
   length (filter (\<lambda>x. P x \<and> x \<noteq> p) xs) + 1 = length (filter P xs)"
proof (induction xs)
  case Nil
  then show ?case by simp
next
  case (Cons x xs)
  show ?case
  proof (cases "x = p")
    case True
    with Cons.prems have "filter (\<lambda>x. P x \<and> x \<noteq> p) xs = filter P xs"
      by (intro filter_cong) auto
    with True Cons.prems show ?thesis by simp
  next
    case False
    with Cons show ?thesis by simp
  qed
qed

lemma patient_dirs_exists_update:
  "patient_dirs (fs\<lparr>fs_exists := e\<rparr>) rt = patient_dirs fs rt"
proof -
  have "glob1 (fs\<lparr>fs_exists := e\<rparr>) = glob1 fs"
    by (rule ext) (simp add: glob1_def)
  then show ?thesis by (simp add: patient_dirs_def glob_glob_def Let_def)
qed

lemma make_record_in_data_list:
  assumes "\<forall>q\<in>set dirs. q \<noteq> [] \<and> last q \<noteq> CHR ''/''" and "p \<in> set dirs"
  shows "make_record p \<in> set (build_data_list fs dirs) \<longleftrightarrow>
         fs_exists fs (t1_path p) \<and> fs_exists fs (seg_path p)"
proof
  assume "make_record p \<in> set (build_data_list fs dirs)"
  then obtain q where q: "q \<in> set dirs" "fs_exists fs (t1_path q) \<and> fs_exists fs (seg_path q)"
    and eq: "make_record q = make_record p"
    by (auto simp: build_data_list_filter)
  from assms q(1) eq have "q = p" by (intro make_record_inj) auto
  with q(2) show "fs_exists fs (t1_path p) \<and> fs_exists fs (seg_path p)" by simp
next
  assume "fs_exists fs (t1_path p) \<and> fs_exists fs (seg_path p)"
  with assms(2) show "make_record p \<in> set (build_data_list fs dirs)"
    by (auto simp: build_data_list_filter)
qed

lemma build_data_list_cong:
  "(\<And>p. p \<in> set dirs \<Longrightarrow>
      fs_exists fs' (t1_path p) = fs_exists fs (t1_path p) \<and>
      fs_exists fs' (seg_path p) = fs_exists fs (seg_path p)) \<Longrightarrow>
   build_data_list fs' dirs = build_data_list fs dirs"
  by (induction dirs) simp_all

lemma data_list_without_t1:
  assumes d: "distinct dirs" and wf: "\<forall>q\<in>set dirs. q \<noteq> [] \<and> last q \<noteq> CHR ''/''"
    and p: "p \<in> set dirs" and v: "fs_exists fs (t1_path p) \<and> fs_exists fs (seg_path p)"
  shows "length (build_data_list (fs\<lparr>fs_exists := (fs_exists fs)(t1_path p := False)\<rparr>) dirs) + 1 =
           length (build_data_list fs dirs)"
    and "make_record p \<notin> set (build_data_list (fs\<lparr>fs_exists := (fs_exists fs)(t1_path p := False)\<rparr>) dirs)"
proof -
  let ?fs' = "fs\<lparr>fs_exists := (fs_exists fs)(t1_path p := False)\<rparr>"
  let ?P = "\<lambda>q. fs_exists fs (t1_path q) \<and> fs_exists fs (seg_path q)"
  have same: "(fs_exists ?fs' (t1_path q) \<and> fs_exists ?fs' (seg_path q)) = (?P q \<and> q \<noteq> p)"
    if "q \<in> set dirs" for q
  proof -
    from wf that p have "t1_path q = t1_path p \<longleftrightarrow> q = p"
      by (auto dest: t1_path_inj [rotated -1])
    moreover have "seg_path q \<noteq> t1_path p" using t1_path_ne_seg_path [of p q] by simp
    ultimately show ?thesis by auto
  qed
  then have "filter (\<lambda>q. fs_exists ?fs' (t1_path q) \<and> fs_exists ?fs' (seg_path q)) dirs =
      filter (\<lambda>q. ?P q \<and> q \<noteq> p) dirs"
    by (intro filter_cong) auto
  then have "length (build_data_list ?fs' dirs) = length (filter (\<lambda>q. ?P q \<and> q \<noteq> p) dirs)"
    by (simp add: build_data_list_filter)
  with length_filter_remove [OF d p, of ?P] v
  show "length (build_data_list ?fs' dirs) + 1 = length (build_data_list fs dirs)"
    by (simp add: build_data_list_filter)
  from wf p have "make_record p \<in> set (build_data_list ?fs' dirs) \<longleftrightarrow>
      fs_exists ?fs' (t1_path p) \<and> fs_exists ?fs' (seg_path p)"
    by (rule make_record_in_data_list)
  then show "make_record p \<notin> set (build_data_list ?fs' dirs)" by simp
qed

lemma valid_without_t1:
  assumes wf: "\<forall>q\<in>set dirs. q \<noteq> [] \<and> last q \<noteq> CHR ''/''"
    and p: "p \<in> set dirs" and q: "q \<in> set dirs"
  shows "(fs_exists (fs\<lparr>fs_exists := (fs_exists fs)(t1_path p := False)\<rparr>) (t1_path q) \<and>
          fs_exists (fs\<lparr>fs_exists := (fs_exists fs)(t1_path p := False)\<rparr>) (seg_path q)) =
         ((fs_exists fs (t1_path q) \<and> fs_exists fs (seg_path q)) \<and> q \<noteq> p)"
proof -
  from wf p q have "t1_path q = t1_path p \<longleftrightarrow> q = p"
    by (auto dest: t1_path_inj [rotated -1])
  moreover have "seg_path q \<noteq> t1_path p" using t1_path_ne_seg_path [of p q] by simp
  ultimately show ?thesis by auto
qed

lemma data_list_without_t1_excluded:
  assumes "\<forall>q\<in>set dirs. q \<noteq> [] \<and> last q \<noteq> CHR ''/''" and "p \<in> set dirs"
  shows "make_record p \<notin>
    set (build_data_list (fs\<lparr>fs_exists := (fs_exists fs)(t1_path p := False)\<rparr>) dirs)"
proof -
  from assms have "make_record p \<in>
      set (build_data_list (fs\<lparr>fs_exists := (fs_exists fs)(t1_path p := False)\<rparr>) dirs) \<longleftrightarrow>
      fs_exists (fs\<lparr>fs_exists := (fs_exists fs)(t1_path p := False)\<rparr>) (t1_path p) \<and>
      fs_exists (fs\<lparr>fs_exists := (fs_exists fs)(t1_path p := False)\<rparr>) (seg_path p)"
    by (rule make_record_in_data_list)
  then show ?thesis by simp
qed

lemma data_list_without_t1_same:
  assumes wf: "\<forall>q\<in>set dirs. q \<noteq> [] \<and> last q \<noteq> CHR ''/''" and p: "p \<in> set dirs"
    and nv: "\<not> (fs_exists fs (t1_path p) \<and> fs_exists fs (seg_path p))"
  shows "build_data_list (fs\<lparr>fs_exists := (fs_exists fs)(t1_path p := False)\<rparr>) dirs =
         build_data_list fs dirs"
proof -
  let ?fs' = "fs\<lparr>fs_exists := (fs_exists fs)(t1_path p := False)\<rparr>"
  have "(fs_exists ?fs' (t1_path q) \<and> fs_exists ?fs' (seg_path q)) =
      (fs_exists fs (t1_path q) \<and> fs_exists fs (seg_path q))" if "q \<in> set dirs" for q
    using valid_without_t1 [OF wf p that, of fs] nv by blast
  then have "filter (\<lambda>q. fs_exists ?fs' (t1_path q) \<and> fs_exists ?fs' (seg_path q)) dirs =
      filter (\<lambda>q. fs_exists fs (t1_path q) \<and> fs_exists fs (seg_path q)) dirs"
    by (intro filter_cong) auto
  then show ?thesis by (simp only: build_data_list_filter)
qed

text \<open>
  Claim C4, as amended. Let the listing report every entry once and under a proper path.
  For every scanned patient directory the record is in the data list if and only if its
  first modality file (t1n) and its label file (seg) both exist. No other file test enters
  the data list: two file systems that agree on those two files for every scanned
  directory give the same data list, whatever they hold of t1c, t2w and t2f. Taking away
  the primary file of a folder leaves the scanned directories as they were, and the
  folder's record is then in neither the data list nor either split. When the folder's
  label file is present, the record count becomes smaller by exactly one; when the label
  file is absent, the folder was excluded already and the data list stays as it was.
\<close>

theorem record_included_iff_primary_and_label:
  assumes "distinct (patient_dirs fs rt)"
    and "\<forall>q\<in>set (patient_dirs fs rt). q \<noteq> [] \<and> last q \<noteq> CHR ''/''"
  shows "(\<forall>p\<in>set (patient_dirs fs rt).
            make_record p \<in> set (build_data_list fs (patient_dirs fs rt)) \<longleftrightarrow>
            fs_exists fs (t1_path p) \<and> fs_exists fs (seg_path p)) \<and>
         (\<forall>fs'. (\<forall>p\<in>set (patient_dirs fs rt).
                   fs_exists fs' (t1_path p) = fs_exists fs (t1_path p) \<and>
                   fs_exists fs' (seg_path p) = fs_exists fs (seg_path p)) \<longrightarrow>
                build_data_list fs' (patient_dirs fs rt) =
                build_data_list fs (patient_dirs fs rt)) \<and>
         (\<forall>p\<in>set (patient_dirs fs rt).
            patient_dirs (fs\<lparr>fs_exists := (fs_exists fs)(t1_path p := False)\<rparr>) rt =
              patient_dirs fs rt \<and>
            make_record p \<notin>
              set (build_data_list (fs\<lparr>fs_exists := (fs_exists fs)(t1_path p := False)\<rparr>)
                     (patient_dirs fs rt)) \<and>
            (\<forall>perm m.
               data_dir m = rt \<and>
               raised (setup_dm (fs\<lparr>fs_exists := (fs_exists fs)(t1_path p := False)\<rparr>) perm m) = None \<longrightarrow>
               make_record p \<notin>
                 set (train_files (self (setup_dm
                        (fs\<lparr>fs_exists := (fs_exists fs)(t1_path p := False)\<rparr>) perm m))) \<union>
                 set (val_files (self (setup_dm
                        (fs\<lparr>fs_exists := (fs_exists fs)(t1_path p := False)\<rparr>) perm m))))) \<and>
         (\<forall>p\<in>set (patient_dirs fs rt).
            fs_exists fs (t1_path p) \<and> fs_exists fs (seg_path p) \<longrightarrow>
            length (build_data_list (fs\<lparr>fs_exists := (fs_exists fs)(t1_path p := False)\<rparr>)
                      (patient_dirs fs rt)) + 1 =
              length (build_data_list fs (patient_dirs fs rt))) \<and>
         (\<forall>p\<in>set (patient_dirs fs rt).
            \<not> fs_exists fs (seg_path p) \<longrightarrow>
            build_data_list (fs\<lparr>fs_exists := (fs_exists fs)(t1_path p := False)\<rparr>)
              (patient_dirs fs rt) =
            build_data_list fs (patient_dirs fs rt))"
proof (intro conjI ballI allI impI)
  fix p assume "p \<in> set (patient_dirs fs rt)"
  with assms(2) show "make_record p \<in> set (build_data_list fs (patient_dirs fs rt)) \<longleftrightarrow>
      fs_exists fs (t1_path p) \<and> fs_exists fs (seg_path p)"
    by (rule make_record_in_data_list)
next
  fix fs' :: filesystem
  assume "\<forall>p\<in>set (patient_dirs fs rt).
      fs_exists fs' (t1_path p) = fs_exists fs (t1_path p) \<and>
      fs_exists fs' (seg_path p) = fs_exists fs (seg_path p)"
  then show "build_data_list fs' (patient_dirs fs rt) = build_data_list fs (patient_dirs fs rt)"
    by (intro build_data_list_cong) blast
next
  fix p
  assume p: "p \<in> set (patient_dirs fs rt)"
  let ?fs' = "fs\<lparr>fs_exists := (fs_exists fs)(t1_path p := False)\<rparr>"
  show dirs: "patient_dirs ?fs' rt = patient_dirs fs rt"
    by (rule patient_dirs_exists_update)
  from assms(2) p
  show out: "make_record p \<notin> set (build_data_list ?fs' (patient_dirs fs rt))"
    by (rule data_list_without_t1_excluded)
  fix perm m
  assume "data_dir m = rt \<and> raised (setup_dm ?fs' perm m) = None"
  with setup_dm_lists_subset [of ?fs' perm m] dirs out
  show "make_record p \<notin> set (train_files (self (setup_dm ?fs' perm m))) \<union>
      set (val_files (self (setup_dm ?fs' perm m)))"
    by auto
next
  fix p
  assume p: "p \<in> set (patient_dirs fs rt)"
    and v: "fs_exists fs (t1_path p) \<and> fs_exists fs (seg_path p)"
  from assms p v
  show "length (build_data_list (fs\<lparr>fs_exists := (fs_exists fs)(t1_path p := False)\<rparr>)
          (patient_dirs fs rt)) + 1 =
      length (build_data_list fs (patient_dirs fs rt))"
    by (rule data_list_without_t1(1))
next
  fix p
  assume p: "p \<in> set (patient_dirs fs rt)" and "\<not> fs_exists fs (seg_path p)"
  then have "\<not> (fs_exists fs (t1_path p) \<and> fs_exists fs (seg_path p))" by simp
  with assms(2) p
  show "build_data_list (fs\<lparr>fs_exists := (fs_exists fs)(t1_path p := False)\<rparr>)
          (patient_dirs fs rt) =
      build_data_list fs (patient_dirs fs rt)"
    by (rule data_list_without_t1_same)
qed

text \<open>
  The scenario of the specification: the second folder has its primary volume and no
  label; the first one is valid with or without its three other volumes.
\<close>

theorem record_included_iff_primary_and_label_witness:
  "patient_dirs fs_one ''data'' = [''data/BraTS-GLI-00001'', ''data/BraTS-GLI-00002''] \<and>
   fs_exists fs_one (t1_path ''data/BraTS-GLI-00002'') \<and>
   \<not> fs_exists fs_one (seg_path ''data/BraTS-GLI-00002'') \<and>
   make_record ''data/BraTS-GLI-00001'' \<in> set (build_data_list fs_one (patient_dirs fs_one ''data'')) \<and>
   make_record ''data/BraTS-GLI-00002'' \<notin> set (build_data_list fs_one (patient_dirs fs_one ''data'')) \<and>
   \<not> fs_exists fs_one_primary_only (t1ce_path ''data/BraTS-GLI-00001'') \<and>
   build_data_list fs_one_primary_only (patient_dirs fs_one ''data'') =
     build_data_list fs_one (patient_dirs fs_one ''data'') \<and>
   make_record ''data/BraTS-GLI-00001'' \<notin>
     set (build_data_list
       (fs_one\<lparr>fs_exists := (fs_exists fs_one)(t1_path ''data/BraTS-GLI-00001'' := False)\<rparr>)
       (patient_dirs fs_one ''data'')) \<and>
   length (build_data_list
       (fs_one\<lparr>fs_exists := (fs_exists fs_one)(t1_path ''data/BraTS-GLI-00001'' := False)\<rparr>)
       (patient_dirs fs_one ''data'')) + 1 =
     length (build_data_list fs_one (patient_dirs fs_one ''data'')) \<and>
   build_data_list
       (fs_one\<lparr>fs_exists := (fs_exists fs_one)(t1_path ''data/BraTS-GLI-00002'' := False)\<rparr>)
       (patient_dirs fs_one ''data'') =
     build_data_list fs_one (patient_dirs fs_one ''data'')"
proof -
  have d: "patient_dirs fs_one ''data'' = [''data/BraTS-GLI-00001'', ''data/BraTS-GLI-00002'']"
    by code_simp
  have dist: "distinct (patient_dirs fs_one ''data'')" unfolding d by simp
  have wf: "\<forall>q\<in>set (patient_dirs fs_one ''data''). q \<noteq> [] \<and> last q \<noteq> CHR ''/''"
    unfolding d by simp
  have m1: "''data/BraTS-GLI-00001'' \<in> set (patient_dirs fs_one ''data'')"
    and m2: "''data/BraTS-GLI-00002'' \<in> set (patient_dirs fs_one ''data'')"
    unfolding d by simp_all
  have e1: "fs_exists fs_one (t1_path ''data/BraTS-GLI-00001'') \<and>
      fs_exists fs_one (seg_path ''data/BraTS-GLI-00001'')" by code_simp
  have e2: "fs_exists fs_one (t1_path ''data/BraTS-GLI-00002'')" by code_simp
  have e3: "\<not> fs_exists fs_one (seg_path ''data/BraTS-GLI-00002'')" by code_simp
  have s1: "fs_exists fs_one_primary_only (t1_path ''data/BraTS-GLI-00001'') =
        fs_exists fs_one (t1_path ''data/BraTS-GLI-00001'') \<and>
      fs_exists fs_one_primary_only (seg_path ''data/BraTS-GLI-00001'') =
        fs_exists fs_one (seg_path ''data/BraTS-GLI-00001'')" by code_simp
  have s2: "fs_exists fs_one_primary_only (t1_path ''data/BraTS-GLI-00002'') =
        fs_exists fs_one (t1_path ''data/BraTS-GLI-00002'') \<and>
      fs_exists fs_one_primary_only (seg_path ''data/BraTS-GLI-00002'') =
        fs_exists fs_one (seg_path ''data/BraTS-GLI-00002'')" by code_simp
  have s3: "\<not> fs_exists fs_one_primary_only (t1ce_path ''data/BraTS-GLI-00001'')" by code_simp
  have same: "\<forall>p\<in>set (patient_dirs fs_one ''data'').
      fs_exists fs_one_primary_only (t1_path p) = fs_exists fs_one (t1_path p) \<and>
      fs_exists fs_one_primary_only (seg_path p) = fs_exists fs_one (seg_path p)"
    unfolding d using s1 s2 by simp
  note t = record_included_iff_primary_and_label [OF dist wf]
  from t m1 e1
  have c1: "make_record ''data/BraTS-GLI-00001'' \<in> set (build_data_list fs_one (patient_dirs fs_one ''data''))"
    by blast
  from t m2 e3
  have c2: "make_record ''data/BraTS-GLI-00002'' \<notin> set (build_data_list fs_one (patient_dirs fs_one ''data''))"
    by blast
  from t same
  have c3: "build_data_list fs_one_primary_only (patient_dirs fs_one ''data'') =
      build_data_list fs_one (patient_dirs fs_one ''data'')"
    by blast
  from t m1
  have c4: "make_record ''data/BraTS-GLI-00001'' \<notin>
     set (build_data_list
       (fs_one\<lparr>fs_exists := (fs_exists fs_one)(t1_path ''data/BraTS-GLI-00001'' := False)\<rparr>)
       (patient_dirs fs_one ''data''))"
    by blast
  from t m1 e1
  have c5: "length (build_data_list
       (fs_one\<lparr>fs_exists := (fs_exists fs_one)(t1_path ''data/BraTS-GLI-00001'' := False)\<rparr>)
       (patient_dirs fs_one ''data'')) + 1 =
     length (build_data_list fs_one (patient_dirs fs_one ''data''))"
    by blast
  from t m2 e3
  have c6: "build_data_list
       (fs_one\<lparr>fs_exists := (fs_exists fs_one)(t1_path ''data/BraTS-GLI-00002'' := False)\<rparr>)
       (patient_dirs fs_one ''data'') =
     build_data_list fs_one (patient_dirs fs_one ''data'')"
    by blast
  from d e2 e3 c1 c2 s3 c3 c4 c5 c6 show ?thesis by (intro conjI)
qed

text \<open>
  The claim as written fails for a folder that lacks its label file: with its primary
  file or without it, the record count is the same.
\<close>

theorem primary_missing_without_label_counterexample:
  "patient_dirs fs_one ''data'' = [''data/BraTS-GLI-00001'', ''data/BraTS-GLI-00002''] \<and>
   fs_exists fs_one (t1_path ''data/BraTS-GLI-00002'') \<and>
   \<not> fs_exists fs_one (seg_path ''data/BraTS-GLI-00002'') \<and>
   \<not> fs_exists
       (fs_one\<lparr>fs_exists := (fs_exists fs_one)(t1_path ''data/BraTS-GLI-00002'' := False)\<rparr>)
       (t1_path ''data/BraTS-GLI-00002'') \<and>
   length (build_data_list fs_one (patient_dirs fs_one ''data'')) = 1 \<and>
   length (build_data_list
       (fs_one\<lparr>fs_exists := (fs_exists fs_one)(t1_path ''data/BraTS-GLI-00002'' := False)\<rparr>)
       (patient_dirs
         (fs_one\<lparr>fs_exists := (fs_exists fs_one)(t1_path ''data/BraTS-GLI-00002'' := False)\<rparr>)
         ''data'')) = 1"
  by code_simp

subsection \<open>C3: the sizes of the two parts\<close>

lemma safe_indexing_map:
  "\<forall>i\<in>set is. i < length xs \<Longrightarrow> safe_indexing xs is = Some (map ((!) xs) is)"
  by (induction "is") simp_all

lemma perm_set: "mset p = mset [0..<n] \<Longrightarrow> set p = {0..<n}"
  by (metis mset_eq_setD set_upt)

lemma perm_length: "mset p = mset [0..<n] \<Longrightarrow> length p = n"
  by (metis length_upt mset_eq_length minus_nat.diff_0)

lemma n_train_positive: "2 \<le> (n::nat) \<Longrightarrow> 0 < n - (n + 4) div 5"
  by arith

lemma n_train_floor: "(n::nat) - (n + 4) div 5 = 4 * n div 5"
  by arith

lemma split_permuted:
  assumes p: "mset (perm (length xs)) = mset [0..<length xs]" and n: "2 \<le> length xs"
  shows "train_test_split perm xs =
    Inr (map ((!) xs) (take (length xs - (length xs + 4) div 5)
                          (drop ((length xs + 4) div 5) (perm (length xs)))),
         map ((!) xs) (take ((length xs + 4) div 5) (perm (length xs))))"
proof -
  have in_range: "\<forall>i\<in>set (perm (length xs)). i < length xs"
    using perm_set [OF p] by simp
  then have "\<forall>i\<in>set (take k (perm (length xs))). i < length xs" for k
    by (auto dest: in_set_takeD)
  moreover from in_range
  have "\<forall>i\<in>set (take k (drop j (perm (length xs)))). i < length xs" for k j
    by (auto dest!: in_set_takeD in_set_dropD)
  ultimately show ?thesis
    using n_train_positive [OF n]
    by (simp add: train_test_split_def Let_def safe_indexing_map)
qed

lemma split_partition:
  assumes p: "mset (perm (length xs)) = mset [0..<length xs]" and n: "2 \<le> length xs"
    and s: "train_test_split perm xs = Inr (tr, te)"
  shows "mset tr + mset te = mset xs"
    and "length tr = 4 * length xs div 5"
    and "length te = (length xs + 4) div 5"
proof -
  let ?N = "length xs"
  let ?k = "(?N + 4) div 5"
  let ?p = "perm ?N"
  from s split_permuted [of perm xs, OF p n]
  have tr: "tr = map ((!) xs) (take (?N - ?k) (drop ?k ?p))"
    and te: "te = map ((!) xs) (take ?k ?p)" by simp_all
  have len: "length ?p = ?N" using p by (rule perm_length)
  have k: "?k \<le> ?N" using n by arith
  have "take ?k ?p @ take (?N - ?k) (drop ?k ?p) = take (?k + (?N - ?k)) ?p"
    by (simp only: take_add)
  also have "\<dots> = ?p" using len k by simp
  finally have "mset (take ?k ?p) + mset (take (?N - ?k) (drop ?k ?p)) = mset ?p"
    by (metis mset_append)
  then have "mset te + mset tr = image_mset ((!) xs) (mset ?p)"
    unfolding tr te by (simp flip: image_mset_union)
  also have "\<dots> = mset (map ((!) xs) [0..<?N])" using p by simp
  also have "\<dots> = mset xs" by (simp only: map_nth)
  finally show "mset tr + mset te = mset xs" by (simp add: add.commute)
  show "length tr = 4 * ?N div 5"
    unfolding tr using len k by (simp add: n_train_floor)
  show "length te = ?k" unfolding te using len k by simp
qed

lemma distinct_data_list:
  assumes "distinct dirs" and "\<forall>q\<in>set dirs. q \<noteq> [] \<and> last q \<noteq> CHR ''/''"
  shows "distinct (build_data_list fs dirs)"
proof -
  have "inj_on make_record (set dirs)"
    using assms(2) by (intro inj_onI make_record_inj) auto
  then have "inj_on make_record
      (set (filter (\<lambda>p. fs_exists fs (t1_path p) \<and> fs_exists fs (seg_path p)) dirs))"
    by (rule inj_on_subset) auto
  with assms(1) show ?thesis by (simp add: build_data_list_filter distinct_map)
qed

lemma data_list_all_valid:
  "\<forall>q\<in>set dirs. fs_exists fs (t1_path q) \<and> fs_exists fs (seg_path q) \<Longrightarrow>
   build_data_list fs dirs = map make_record dirs"
  by (induction dirs) simp_all

text \<open>
  Claim C3, as amended. Let the listing report every entry once and under a proper path,
  let every one of the \<open>N\<close> scanned folders be valid, and let the library's permutation
  be a permutation of the \<open>N\<close> indices. Then the data list has exactly \<open>N\<close> records.
  For \<open>N \<ge> 2\<close> the call completes with \<open>\<lfloor>0.8N\<rfloor>\<close> training records and
  \<open>\<lceil>0.2N\<rceil>\<close> validation records, every record is in exactly one of the two lists
  and the lists do not overlap. For \<open>N = 1\<close> the split call raises
  \<^verbatim>\<open>ValueError\<close>, and for \<open>N = 0\<close> the call raises the no-data failure.
\<close>

theorem setup_split_sizes_and_partition:
  assumes perm: "mset (perm (length (patient_dirs fs (data_dir m)))) =
      mset [0..<length (patient_dirs fs (data_dir m))]"
    and dist: "distinct (patient_dirs fs (data_dir m))"
    and wf: "\<forall>q\<in>set (patient_dirs fs (data_dir m)). q \<noteq> [] \<and> last q \<noteq> CHR ''/''"
    and valid: "\<forall>q\<in>set (patient_dirs fs (data_dir m)).
      fs_exists fs (t1_path q) \<and> fs_exists fs (seg_path q)"
  shows "length (build_data_list fs (patient_dirs fs (data_dir m))) =
           length (patient_dirs fs (data_dir m)) \<and>
    (2 \<le> length (patient_dirs fs (data_dir m)) \<longrightarrow>
       raised (setup_dm fs perm m) = None \<and>
       length (train_files (self (setup_dm fs perm m))) =
         4 * length (patient_dirs fs (data_dir m)) div 5 \<and>
       length (val_files (self (setup_dm fs perm m))) =
         (length (patient_dirs fs (data_dir m)) + 4) div 5 \<and>
       length (train_files (self (setup_dm fs perm m))) +
         length (val_files (self (setup_dm fs perm m))) =
         length (patient_dirs fs (data_dir m)) \<and>
       mset (train_files (self (setup_dm fs perm m))) +
         mset (val_files (self (setup_dm fs perm m))) =
         mset (map make_record (patient_dirs fs (data_dir m))) \<and>
       distinct (train_files (self (setup_dm fs perm m)) @
                 val_files (self (setup_dm fs perm m))) \<and>
       set (train_files (self (setup_dm fs perm m))) \<inter>
         set (val_files (self (setup_dm fs perm m))) = {}) \<and>
    (length (patient_dirs fs (data_dir m)) = 1 \<longrightarrow>
       raised (setup_dm fs perm m) = Some ValueError) \<and>
    (length (patient_dirs fs (data_dir m)) = 0 \<longrightarrow>
       raised (setup_dm fs perm m) = Some FileNotFoundError)"
proof -
  let ?dirs = "patient_dirs fs (data_dir m)"
  let ?data = "build_data_list fs ?dirs"
  let ?r = "setup_dm fs perm m"
  have data: "?data = map make_record ?dirs"
    using valid by (rule data_list_all_valid)
  then have len: "length ?data = length ?dirs" by simp
  have many: "raised ?r = None \<and>
       length (train_files (self ?r)) = 4 * length ?dirs div 5 \<and>
       length (val_files (self ?r)) = (length ?dirs + 4) div 5 \<and>
       length (train_files (self ?r)) + length (val_files (self ?r)) = length ?dirs \<and>
       mset (train_files (self ?r)) + mset (val_files (self ?r)) = mset (map make_record ?dirs) \<and>
       distinct (train_files (self ?r) @ val_files (self ?r)) \<and>
       set (train_files (self ?r)) \<inter> set (val_files (self ?r)) = {}"
    if n: "2 \<le> length ?dirs"
  proof -
    from n have ne: "?dirs \<noteq> []" by auto
    have p: "mset (perm (length ?data)) = mset [0..<length ?data]"
      using perm by (simp only: len)
    have n': "2 \<le> length ?data" using n by (simp only: len)
    obtain tr te where s: "train_test_split perm ?data = Inr (tr, te)"
      using split_permuted [of perm ?data, OF p n'] by blast
    from ne s have r: "raised ?r = None" "train_files (self ?r) = tr" "val_files (self ?r) = te"
      by (simp_all add: setup_dm_dirs)
    note part = split_partition [of perm ?data, OF p n' s]
    have m: "mset (tr @ te) = mset ?data" using part(1) by simp
    have "distinct ?data" using dist wf by (rule distinct_data_list)
    with m have d: "distinct (tr @ te)" by (metis mset_eq_imp_distinct_iff)
    have sizes: "length tr + length te = length ?dirs"
      using m len by (metis length_append mset_eq_length)
    from r part d sizes show ?thesis
      by (simp add: len data)
  qed
  have one: "raised ?r = Some ValueError" if "length ?dirs = 1"
  proof -
    from that have "?dirs \<noteq> []" by auto
    moreover from that len have "train_test_split perm ?data = Inl ValueError"
      by (simp add: split_short)
    ultimately show ?thesis by (simp add: setup_dm_dirs)
  qed
  have none: "raised ?r = Some FileNotFoundError" if "length ?dirs = 0"
    using that by (simp add: setup_dm_no_dirs)
  from len many one none show ?thesis by blast
qed

text \<open>Three valid folders: two records for training, one for validation.\<close>

theorem setup_split_sizes_and_partition_witness:
  "length (patient_dirs fs_three ''data'') = 3 \<and>
   raised (setup_dm fs_three perm_desc (init_default ''data'')) = None \<and>
   length (train_files (self (setup_dm fs_three perm_desc (init_default ''data'')))) = 2 \<and>
   length (val_files (self (setup_dm fs_three perm_desc (init_default ''data'')))) = 1 \<and>
   set (train_files (self (setup_dm fs_three perm_desc (init_default ''data'')))) \<inter>
     set (val_files (self (setup_dm fs_three perm_desc (init_default ''data'')))) = {} \<and>
   mset (train_files (self (setup_dm fs_three perm_desc (init_default ''data'')))) +
     mset (val_files (self (setup_dm fs_three perm_desc (init_default ''data'')))) =
     mset (map make_record [''data/P1'', ''data/P2'', ''data/P3''])"
proof -
  have dd: "data_dir (init_default ''data'') = ''data''" by (rule data_dir_init_default)
  have d: "patient_dirs fs_three ''data'' = [''data/P1'', ''data/P2'', ''data/P3'']"
    by code_simp
  have perm: "mset (perm_desc (length (patient_dirs fs_three (data_dir (init_default ''data''))))) =
      mset [0..<length (patient_dirs fs_three (data_dir (init_default ''data'')))]"
    by (simp add: perm_desc_def)
  have dist: "distinct (patient_dirs fs_three (data_dir (init_default ''data'')))"
    unfolding dd d by simp
  have wf: "\<forall>q\<in>set (patient_dirs fs_three (data_dir (init_default ''data''))).
      q \<noteq> [] \<and> last q \<noteq> CHR ''/''"
    unfolding dd d by simp
  have v1: "fs_exists fs_three (t1_path ''data/P1'') \<and> fs_exists fs_three (seg_path ''data/P1'')"
    by code_simp
  have v2: "fs_exists fs_three (t1_path ''data/P2'') \<and> fs_exists fs_three (seg_path ''data/P2'')"
    by code_simp
  have v3: "fs_exists fs_three (t1_path ''data/P3'') \<and> fs_exists fs_three (seg_path ''data/P3'')"
    by code_simp
  have valid: "\<forall>q\<in>set (patient_dirs fs_three (data_dir (init_default ''data''))).
      fs_exists fs_three (t1_path q) \<and> fs_exists fs_three (seg_path q)"
    unfolding dd d using v1 v2 v3 by simp
  from setup_split_sizes_and_partition
    [where perm = perm_desc and fs = fs_three and m = "init_default ''data''",
      OF perm dist wf valid]
  show ?thesis unfolding dd d by simp
qed

text \<open>
  The claim as written fails for two valid folders: \<^verbatim>\<open>round(0.8 * 2)\<close> is 2, and
  the split puts one record in each part.
\<close>

theorem two_records_counterexample:
  "length (patient_dirs fs_two ''data'') = 2 \<and>
   build_data_list fs_two (patient_dirs fs_two ''data'') =
     map make_record (patient_dirs fs_two ''data'') \<and>
   raised (setup_dm fs_two perm_desc (init_default ''data'')) = None \<and>
   length (train_files (self (setup_dm fs_two perm_desc (init_default ''data'')))) = 1 \<and>
   length (val_files (self (setup_dm fs_two perm_desc (init_default ''data'')))) = 1 \<and>
   spec_round_train 2 = 2 \<and>
   length (train_files (self (setup_dm fs_two perm_desc (init_default ''data'')))) \<noteq>
     spec_round_train 2"
  by code_simp

end
